theory Spec2Isabelle
  imports Main "HOL-Library.Word"
begin

unbundle bit_operations_syntax

section \<open>The C++ run-time the sample relies on\<close>

text \<open>
  The sample (\<^verbatim>\<open>src/Data/qvs_sample_files/sample_cpp.cpp\<close>) is a class of static
  procedures over OpenSSL and a driver \<^verbatim>\<open>main\<close>. Its own logic is buffer bookkeeping:
  sizes computed in \<^verbatim>\<open>size_t\<close>, conversions between \<^verbatim>\<open>int\<close>, \<^verbatim>\<open>unsigned int\<close> and
  \<^verbatim>\<open>size_t\<close>, \<^verbatim>\<open>std::vector\<close> construction and \<^verbatim>\<open>resize\<close>, and \<^verbatim>\<open>std::copy\<close>.

  \<^item> \<^verbatim>\<open>unsigned char\<close> is an 8-bit word; \<^verbatim>\<open>int\<close> and \<^verbatim>\<open>unsigned int\<close> are 32-bit words
    (read with \<open>sint\<close> and \<open>unat\<close>);
  \<^item> a \<^verbatim>\<open>size_t\<close> value is a natural number below \<open>2 ^ 64\<close>, with the wrap-around of
    every \<^verbatim>\<open>size_t\<close> operation written out;
  \<^item> a \<^verbatim>\<open>std::vector<unsigned char>\<close> and a \<^verbatim>\<open>std::string\<close> are lists of bytes;
  \<^item> an exception thrown by the standard library, and undefined behaviour (a null or
    dangling handle passed to the library, a read or write outside a buffer), end the
    computation with a value of type \<open>error\<close>.

  Exhaustion of memory (\<^verbatim>\<open>std::bad_alloc\<close>) is not modelled.
\<close>

type_synonym byte = "8 word"
type_synonym c_int = "32 word"
type_synonym c_uint = "32 word"

datatype error =
    Length_error         \<comment> \<open>\<^verbatim>\<open>std::length_error\<close>: a vector asked to exceed \<^verbatim>\<open>max_size()\<close>\<close>
  | Null_dereference     \<comment> \<open>a null handle handed to a library routine that reads it\<close>
  | Dangling_handle      \<comment> \<open>a released handle used or released again\<close>
  | Out_of_bounds        \<comment> \<open>a read or write past the end of a buffer\<close>

definition size_t_wrap :: "int \<Rightarrow> nat" where
  "size_t_wrap i = nat (i mod 2 ^ 64)"

text \<open>Conversion \<^verbatim>\<open>int\<close> to \<^verbatim>\<open>size_t\<close>: the value modulo \<open>2 ^ 64\<close>.\<close>

definition size_t_of_int :: "c_int \<Rightarrow> nat" where
  "size_t_of_int i = size_t_wrap (sint i)"

text \<open>Conversion \<^verbatim>\<open>unsigned int\<close> to \<^verbatim>\<open>size_t\<close>: value preserving.\<close>

definition size_t_of_uint :: "c_uint \<Rightarrow> nat" where
  "size_t_of_uint u = unat u"

text \<open>Conversion \<^verbatim>\<open>size_t\<close> to \<^verbatim>\<open>int\<close>: the low 32 bits.\<close>

definition int_of_size_t :: "nat \<Rightarrow> c_int" where
  "int_of_size_t n = word_of_nat n"

text \<open>Conversion \<^verbatim>\<open>int\<close> to \<^verbatim>\<open>unsigned int\<close>: the same 32 bits.\<close>

definition uint_of_int :: "c_int \<Rightarrow> c_uint" where
  "uint_of_int i = i"

text \<open>
  \<^verbatim>\<open>std::vector<unsigned char>::max_size()\<close> on a 64-bit platform is \<^verbatim>\<open>PTRDIFF_MAX\<close>.
\<close>

definition vector_max_size :: nat where
  "vector_max_size = 2 ^ 63 - 1"

text \<open>\<^verbatim>\<open>std::vector<unsigned char> v(n)\<close>: \<open>n\<close> zero bytes, or \<^verbatim>\<open>std::length_error\<close>.\<close>

definition vector_create :: "nat \<Rightarrow> error + byte list" where
  "vector_create n =
     (if vector_max_size < n then Inl Length_error else Inr (replicate n 0))"

text \<open>
  \<^verbatim>\<open>v.resize(n)\<close>: the first \<open>n\<close> elements are kept, zero bytes are appended up to
  length \<open>n\<close>; \<^verbatim>\<open>std::length_error\<close> when \<open>n\<close> exceeds \<^verbatim>\<open>max_size()\<close>.
\<close>

definition vector_resize :: "nat \<Rightarrow> byte list \<Rightarrow> error + byte list" where
  "vector_resize n v =
     (if vector_max_size < n then Inl Length_error
      else Inr (take n v @ replicate (n - length v) 0))"

text \<open>
  \<^verbatim>\<open>std::copy(src.begin(), src.end(), dst.begin() + off)\<close>: the bytes of \<open>src\<close> overwrite
  \<open>dst\<close> from position \<open>off\<close>; writing past the end of \<open>dst\<close> is undefined.
\<close>

definition std_copy :: "byte list \<Rightarrow> byte list \<Rightarrow> nat \<Rightarrow> error + byte list" where
  "std_copy src dst off =
     (if length dst < off + length src then Inl Out_of_bounds
      else Inr (take off dst @ src @ drop (off + length src) dst))"

section \<open>Handles\<close>

text \<open>
  A handle is a pointer into a heap of library objects of one kind. A heap is a list of
  cells, the address is the index; a released cell is \<open>None\<close>. An allocation takes the
  next index, so a new handle differs from every handle given out before.
\<close>

datatype ptr = Null | Ptr nat

type_synonym 'a heap = "'a option list"

definition live :: "'a heap \<Rightarrow> nat set" where
  "live h = {a. a < length h \<and> h ! a \<noteq> None}"

definition alloc :: "'a \<Rightarrow> 'a heap \<Rightarrow> ptr \<times> 'a heap" where
  "alloc v h = (Ptr (length h), h @ [Some v])"

fun deref :: "'a heap \<Rightarrow> ptr \<Rightarrow> error + 'a" where
  "deref h Null = Inl Null_dereference"
| "deref h (Ptr a) =
     (if a < length h then (case h ! a of None \<Rightarrow> Inl Dangling_handle | Some v \<Rightarrow> Inr v)
      else Inl Dangling_handle)"

fun update :: "'a heap \<Rightarrow> ptr \<Rightarrow> 'a \<Rightarrow> error + 'a heap" where
  "update h Null v = Inl Null_dereference"
| "update h (Ptr a) v =
     (if a < length h then (case h ! a of None \<Rightarrow> Inl Dangling_handle | Some _ \<Rightarrow> Inr (h[a := Some v]))
      else Inl Dangling_handle)"

text \<open>
  The library's \<^verbatim>\<open>*_free\<close> routines do nothing on a null pointer; releasing a handle
  that is not live is undefined.
\<close>

fun release :: "'a heap \<Rightarrow> ptr \<Rightarrow> error + 'a heap" where
  "release h Null = Inr h"
| "release h (Ptr a) =
     (if a < length h then (case h ! a of None \<Rightarrow> Inl Dangling_handle | Some _ \<Rightarrow> Inr (h[a := None]))
      else Inl Dangling_handle)"

section \<open>The cryptography library\<close>

text \<open>
  OpenSSL is outside the repository. What its routines compute is a parameter of the
  model: a record of functions over a library state \<open>'s\<close> (random generator, error
  queue), RSA key objects \<open>'rsa\<close>, expanded AES keys \<open>'aes\<close> and EC key objects \<open>'ec\<close>.
  A routine that stores bytes through a pointer returns the bytes it stores.
\<close>

record ('s, 'rsa, 'aes, 'ec) openssl =
  lib_RSA_new :: "'s \<Rightarrow> 'rsa option \<times> 's"
  lib_BN_new :: "'s \<Rightarrow> bool \<times> 's"
  lib_RSA_generate_key_ex :: "'rsa \<Rightarrow> c_int \<Rightarrow> int \<Rightarrow> 's \<Rightarrow> (c_int \<times> 'rsa) \<times> 's"
  lib_RSA_size :: "'rsa \<Rightarrow> c_int"
  lib_RSA_public_encrypt :: "c_int \<Rightarrow> byte list \<Rightarrow> 'rsa \<Rightarrow> c_int \<Rightarrow> 's \<Rightarrow> (c_int \<times> byte list) \<times> 's"
  lib_RAND_bytes :: "c_int \<Rightarrow> 's \<Rightarrow> (c_int \<times> byte list) \<times> 's"
  lib_AES_set_encrypt_key :: "byte list \<Rightarrow> c_int \<Rightarrow> c_int \<times> 'aes"
  lib_AES_set_decrypt_key :: "byte list \<Rightarrow> c_int \<Rightarrow> c_int \<times> 'aes"
  lib_AES_encrypt :: "'aes \<Rightarrow> byte list \<Rightarrow> byte list"
  lib_AES_decrypt :: "'aes \<Rightarrow> byte list \<Rightarrow> byte list"
  lib_EC_KEY_new_by_curve_name :: "c_int \<Rightarrow> 's \<Rightarrow> 'ec option \<times> 's"
  lib_EC_KEY_generate_key :: "'ec \<Rightarrow> 's \<Rightarrow> (c_int \<times> 'ec) \<times> 's"
  lib_ECDSA_size :: "'ec \<Rightarrow> c_int"
  lib_ECDSA_sign :: "c_int \<Rightarrow> byte list \<Rightarrow> c_int \<Rightarrow> 'ec \<Rightarrow> 's \<Rightarrow> (c_int \<times> byte list \<times> c_uint) \<times> 's"

text \<open>Every call into the library is recorded, with the handles it is given or returns.\<close>

datatype call =
    RSA_new_call ptr
  | BN_new_call ptr
  | BN_set_word_call ptr
  | RSA_generate_key_ex_call ptr ptr
  | BN_free_call ptr
  | RSA_size_call ptr
  | RSA_public_encrypt_call ptr
  | RAND_bytes_call
  | AES_set_encrypt_key_call
  | AES_cbc_encrypt_call
  | EC_KEY_new_by_curve_name_call ptr
  | EC_KEY_generate_key_call ptr
  | ECDSA_size_call ptr
  | ECDSA_sign_call ptr
  | RSA_free_call ptr
  | EC_KEY_free_call ptr

record ('s, 'rsa, 'ec) world =
  lib_state :: 's
  rsa_heap :: "'rsa heap"
  bn_heap :: "int heap"
  ec_heap :: "'ec heap"
  trace :: "call list"
  console :: "(string \<times> nat) list"

text \<open>
  A procedure takes the world and ends with an error or with a result and the new
  world.
\<close>

type_synonym ('a, 's, 'rsa, 'ec) prog =
  "('s, 'rsa, 'ec) world \<Rightarrow> error + ('a \<times> ('s, 'rsa, 'ec) world)"

definition ret :: "'a \<Rightarrow> ('a, 's, 'rsa, 'ec) prog" where
  "ret x w = Inr (x, w)"

definition bnd :: "('a, 's, 'rsa, 'ec) prog \<Rightarrow> ('a \<Rightarrow> ('b, 's, 'rsa, 'ec) prog) \<Rightarrow> ('b, 's, 'rsa, 'ec) prog" where
  "bnd m f w = (case m w of Inl e \<Rightarrow> Inl e | Inr (x, w') \<Rightarrow> f x w')"

definition lift :: "error + 'a \<Rightarrow> ('a, 's, 'rsa, 'ec) prog" where
  "lift r w = (case r of Inl e \<Rightarrow> Inl e | Inr x \<Rightarrow> Inr (x, w))"

definition logged :: "call \<Rightarrow> ('s, 'rsa, 'ec) world \<Rightarrow> ('s, 'rsa, 'ec) world" where
  "logged c w = w\<lparr>trace := trace w @ [c]\<rparr>"


subsection \<open>Constants of the library's headers\<close>

definition AES_BLOCK_SIZE :: nat where
  "AES_BLOCK_SIZE = 16"

definition AES_ENCRYPT :: c_int where
  "AES_ENCRYPT = 1"

definition RSA_F4 :: int where
  "RSA_F4 = 65537"

definition RSA_PKCS1_PADDING :: c_int where
  "RSA_PKCS1_PADDING = 1"

definition NID_X9_62_prime256v1 :: c_int where
  "NID_X9_62_prime256v1 = 415"

subsection \<open>Key objects\<close>

text \<open>
  \<^verbatim>\<open>RSA_new\<close>, \<^verbatim>\<open>BN_new\<close> and \<^verbatim>\<open>EC_KEY_new_by_curve_name\<close> return a new handle, or null
  when the library fails to create the object.
\<close>

definition RSA_new :: "('s, 'rsa, 'aes, 'ec) openssl \<Rightarrow> (ptr, 's, 'rsa, 'ec) prog" where
  "RSA_new lib w =
     (case lib_RSA_new lib (lib_state w) of
        (None, s') \<Rightarrow> Inr (Null, logged (RSA_new_call Null) (w\<lparr>lib_state := s'\<rparr>))
      | (Some k, s') \<Rightarrow>
          (case alloc k (rsa_heap w) of
             (p, h') \<Rightarrow> Inr (p, logged (RSA_new_call p) (w\<lparr>lib_state := s', rsa_heap := h'\<rparr>))))"

definition BN_new :: "('s, 'rsa, 'aes, 'ec) openssl \<Rightarrow> (ptr, 's, 'rsa, 'ec) prog" where
  "BN_new lib w =
     (case lib_BN_new lib (lib_state w) of
        (False, s') \<Rightarrow> Inr (Null, logged (BN_new_call Null) (w\<lparr>lib_state := s'\<rparr>))
      | (True, s') \<Rightarrow>
          (case alloc 0 (bn_heap w) of
             (p, h') \<Rightarrow> Inr (p, logged (BN_new_call p) (w\<lparr>lib_state := s', bn_heap := h'\<rparr>))))"

definition BN_set_word :: "ptr \<Rightarrow> int \<Rightarrow> (c_int, 's, 'rsa, 'ec) prog" where
  "BN_set_word bn v w =
     (case update (bn_heap w) bn v of
        Inl e \<Rightarrow> Inl e
      | Inr h' \<Rightarrow> Inr (1, logged (BN_set_word_call bn) (w\<lparr>bn_heap := h'\<rparr>)))"

definition BN_free :: "ptr \<Rightarrow> (unit, 's, 'rsa, 'ec) prog" where
  "BN_free bn w =
     (case release (bn_heap w) bn of
        Inl e \<Rightarrow> Inl e
      | Inr h' \<Rightarrow> Inr ((), logged (BN_free_call bn) (w\<lparr>bn_heap := h'\<rparr>)))"

text \<open>
  \<^verbatim>\<open>RSA_generate_key_ex(rsa, bits, e, cb)\<close> fills the object behind \<open>rsa\<close>; the sample
  passes no callback.
\<close>

definition RSA_generate_key_ex ::
  "('s, 'rsa, 'aes, 'ec) openssl \<Rightarrow> ptr \<Rightarrow> c_int \<Rightarrow> ptr \<Rightarrow> (c_int, 's, 'rsa, 'ec) prog" where
  "RSA_generate_key_ex lib rsa bits e w =
     (case deref (rsa_heap w) rsa of
        Inl err \<Rightarrow> Inl err
      | Inr k \<Rightarrow>
     (case deref (bn_heap w) e of
        Inl err \<Rightarrow> Inl err
      | Inr ev \<Rightarrow>
     (case lib_RSA_generate_key_ex lib k bits ev (lib_state w) of
        ((rc, k'), s') \<Rightarrow>
     (case update (rsa_heap w) rsa k' of
        Inl err \<Rightarrow> Inl err
      | Inr h' \<Rightarrow>
          Inr (rc, logged (RSA_generate_key_ex_call rsa e) (w\<lparr>lib_state := s', rsa_heap := h'\<rparr>))))))"

definition RSA_size :: "('s, 'rsa, 'aes, 'ec) openssl \<Rightarrow> ptr \<Rightarrow> (c_int, 's, 'rsa, 'ec) prog" where
  "RSA_size lib rsa w =
     (case deref (rsa_heap w) rsa of
        Inl err \<Rightarrow> Inl err
      | Inr k \<Rightarrow> Inr (lib_RSA_size lib k, logged (RSA_size_call rsa) w))"

text \<open>
  \<^verbatim>\<open>RSA_public_encrypt(flen, from, to, rsa, padding)\<close> stores at most \<^verbatim>\<open>RSA_size(rsa)\<close>
  bytes at \<open>to\<close> and returns the size of the ciphertext, or \<open>-1\<close> on error.
\<close>

definition RSA_public_encrypt ::
  "('s, 'rsa, 'aes, 'ec) openssl \<Rightarrow> c_int \<Rightarrow> byte list \<Rightarrow> byte list \<Rightarrow> ptr \<Rightarrow> c_int \<Rightarrow>
   (c_int \<times> byte list, 's, 'rsa, 'ec) prog" where
  "RSA_public_encrypt lib flen from to rsa padding w =
     (case deref (rsa_heap w) rsa of
        Inl err \<Rightarrow> Inl err
      | Inr k \<Rightarrow>
     (case lib_RSA_public_encrypt lib flen from k padding (lib_state w) of
        ((rc, written), s') \<Rightarrow>
     (case std_copy (take (nat (sint (lib_RSA_size lib k))) written) to 0 of
        Inl err \<Rightarrow> Inl err
      | Inr to' \<Rightarrow>
          Inr ((rc, to'), logged (RSA_public_encrypt_call rsa) (w\<lparr>lib_state := s'\<rparr>)))))"

definition RSA_free :: "ptr \<Rightarrow> (unit, 's, 'rsa, 'ec) prog" where
  "RSA_free rsa w =
     (case release (rsa_heap w) rsa of
        Inl e \<Rightarrow> Inl e
      | Inr h' \<Rightarrow> Inr ((), logged (RSA_free_call rsa) (w\<lparr>rsa_heap := h'\<rparr>)))"

definition EC_KEY_new_by_curve_name ::
  "('s, 'rsa, 'aes, 'ec) openssl \<Rightarrow> c_int \<Rightarrow> (ptr, 's, 'rsa, 'ec) prog" where
  "EC_KEY_new_by_curve_name lib nid w =
     (case lib_EC_KEY_new_by_curve_name lib nid (lib_state w) of
        (None, s') \<Rightarrow> Inr (Null, logged (EC_KEY_new_by_curve_name_call Null) (w\<lparr>lib_state := s'\<rparr>))
      | (Some k, s') \<Rightarrow>
          (case alloc k (ec_heap w) of
             (p, h') \<Rightarrow>
               Inr (p, logged (EC_KEY_new_by_curve_name_call p) (w\<lparr>lib_state := s', ec_heap := h'\<rparr>))))"

definition EC_KEY_generate_key ::
  "('s, 'rsa, 'aes, 'ec) openssl \<Rightarrow> ptr \<Rightarrow> (c_int, 's, 'rsa, 'ec) prog" where
  "EC_KEY_generate_key lib key w =
     (case deref (ec_heap w) key of
        Inl err \<Rightarrow> Inl err
      | Inr k \<Rightarrow>
     (case lib_EC_KEY_generate_key lib k (lib_state w) of
        ((rc, k'), s') \<Rightarrow>
     (case update (ec_heap w) key k' of
        Inl err \<Rightarrow> Inl err
      | Inr h' \<Rightarrow>
          Inr (rc, logged (EC_KEY_generate_key_call key) (w\<lparr>lib_state := s', ec_heap := h'\<rparr>)))))"

definition ECDSA_size :: "('s, 'rsa, 'aes, 'ec) openssl \<Rightarrow> ptr \<Rightarrow> (c_int, 's, 'rsa, 'ec) prog" where
  "ECDSA_size lib key w =
     (case deref (ec_heap w) key of
        Inl err \<Rightarrow> Inl err
      | Inr k \<Rightarrow> Inr (lib_ECDSA_size lib k, logged (ECDSA_size_call key) w))"

text \<open>
  \<^verbatim>\<open>ECDSA_sign(type, dgst, dgstlen, sig, siglen, eckey)\<close> stores at most
  \<^verbatim>\<open>ECDSA_size(eckey)\<close> bytes at \<open>sig\<close>, stores the length of the signature in
  \<open>*siglen\<close> and returns 1, or 0 on error.
\<close>

definition ECDSA_sign ::
  "('s, 'rsa, 'aes, 'ec) openssl \<Rightarrow> c_int \<Rightarrow> byte list \<Rightarrow> c_int \<Rightarrow> byte list \<Rightarrow> c_uint \<Rightarrow> ptr \<Rightarrow>
   (c_int \<times> byte list \<times> c_uint, 's, 'rsa, 'ec) prog" where
  "ECDSA_sign lib type dgst dgstlen sig siglen key w =
     (case deref (ec_heap w) key of
        Inl err \<Rightarrow> Inl err
      | Inr k \<Rightarrow>
     (case lib_ECDSA_sign lib type dgst dgstlen k (lib_state w) of
        ((rc, written, siglen'), s') \<Rightarrow>
     (case std_copy (take (nat (sint (lib_ECDSA_size lib k))) written) sig 0 of
        Inl err \<Rightarrow> Inl err
      | Inr sig' \<Rightarrow>
          Inr ((rc, sig', siglen'), logged (ECDSA_sign_call key) (w\<lparr>lib_state := s'\<rparr>)))))"

definition EC_KEY_free :: "ptr \<Rightarrow> (unit, 's, 'rsa, 'ec) prog" where
  "EC_KEY_free key w =
     (case release (ec_heap w) key of
        Inl e \<Rightarrow> Inl e
      | Inr h' \<Rightarrow> Inr ((), logged (EC_KEY_free_call key) (w\<lparr>ec_heap := h'\<rparr>)))"

subsection \<open>Random bytes and AES\<close>

text \<open>\<^verbatim>\<open>RAND_bytes(buf, num)\<close> stores \<open>num\<close> bytes at \<open>buf\<close>.\<close>

definition RAND_bytes ::
  "('s, 'rsa, 'aes, 'ec) openssl \<Rightarrow> byte list \<Rightarrow> c_int \<Rightarrow> (c_int \<times> byte list, 's, 'rsa, 'ec) prog" where
  "RAND_bytes lib buf num w =
     (case lib_RAND_bytes lib num (lib_state w) of
        ((rc, bytes), s') \<Rightarrow>
     (case std_copy (take (nat (sint num)) bytes) buf 0 of
        Inl err \<Rightarrow> Inl err
      | Inr buf' \<Rightarrow> Inr ((rc, buf'), logged RAND_bytes_call (w\<lparr>lib_state := s'\<rparr>))))"

text \<open>
  \<^verbatim>\<open>AES_set_encrypt_key(userKey, bits, key)\<close> reads \<open>bits / 8\<close> bytes at \<open>userKey\<close> and
  fills the expanded key.
\<close>

definition AES_set_encrypt_key ::
  "('s, 'rsa, 'aes, 'ec) openssl \<Rightarrow> byte list \<Rightarrow> c_int \<Rightarrow> (c_int \<times> 'aes, 's, 'rsa, 'ec) prog" where
  "AES_set_encrypt_key lib userKey bits w =
     (let n = nat (sint bits) div 8 in
      if length userKey < n then Inl Out_of_bounds
      else Inr (lib_AES_set_encrypt_key lib (take n userKey) bits, logged AES_set_encrypt_key_call w))"

text \<open>A block routine stores exactly one block of 16 bytes.\<close>

definition fit_block :: "byte list \<Rightarrow> byte list" where
  "fit_block b = take 16 (b @ replicate 16 0)"

definition AES_encrypt :: "('s, 'rsa, 'aes, 'ec) openssl \<Rightarrow> 'aes \<Rightarrow> byte list \<Rightarrow> byte list" where
  "AES_encrypt lib key b = fit_block (lib_AES_encrypt lib key b)"

definition AES_decrypt :: "('s, 'rsa, 'aes, 'ec) openssl \<Rightarrow> 'aes \<Rightarrow> byte list \<Rightarrow> byte list" where
  "AES_decrypt lib key b = fit_block (lib_AES_decrypt lib key b)"

definition xor_bytes :: "byte list \<Rightarrow> byte list \<Rightarrow> byte list" where
  "xor_bytes a b = map2 (XOR) a b"

text \<open>
  The library's chaining loop for encryption (\<^verbatim>\<open>CRYPTO_cbc128_encrypt\<close>): each block of
  the input is combined with the previous ciphertext block (the initialization vector
  for the first) and encrypted; a last partial block is filled with zero bytes. The
  routine returns the ciphertext and the last ciphertext block, which it stores back
  into the caller's vector.
\<close>

fun cbc128_encrypt :: "(byte list \<Rightarrow> byte list) \<Rightarrow> byte list \<Rightarrow> nat \<Rightarrow> byte list \<Rightarrow> byte list \<times> byte list" where
  "cbc128_encrypt blk inp len iv =
     (if len = 0 then ([], iv)
      else if len < 16 then
        (let c = blk (xor_bytes (take len inp @ replicate (16 - len) 0) iv) in (c, c))
      else
        (let c = blk (xor_bytes (take 16 inp) iv);
             r = cbc128_encrypt blk (drop 16 inp) (len - 16) c
         in (c @ fst r, snd r)))"

text \<open>
  The loop for decryption (\<^verbatim>\<open>CRYPTO_cbc128_decrypt\<close>): each ciphertext block is decrypted
  and combined with the previous ciphertext block; of a last partial block only
  \<open>len\<close> bytes are stored.
\<close>

fun cbc128_decrypt :: "(byte list \<Rightarrow> byte list) \<Rightarrow> byte list \<Rightarrow> nat \<Rightarrow> byte list \<Rightarrow> byte list \<times> byte list" where
  "cbc128_decrypt blk inp len iv =
     (if len = 0 then ([], iv)
      else if len < 16 then
        (let c = take 16 inp in (take len (xor_bytes (blk c) iv), c))
      else
        (let c = take 16 inp;
             p = xor_bytes (blk c) iv;
             r = cbc128_decrypt blk (drop 16 inp) (len - 16) c
         in (p @ fst r, snd r)))"

text \<open>
  \<^verbatim>\<open>AES_cbc_encrypt(in, out, len, key, ivec, enc)\<close> reads \<open>len\<close> bytes at \<open>in\<close> and 16 bytes
  at \<open>ivec\<close>, stores the result at \<open>out\<close> (here: position \<open>off\<close> of the buffer \<open>out\<close>)
  and the new chaining value at \<open>ivec\<close>.
\<close>

definition AES_cbc_encrypt ::
  "('s, 'rsa, 'aes, 'ec) openssl \<Rightarrow> byte list \<Rightarrow> byte list \<Rightarrow> nat \<Rightarrow> nat \<Rightarrow> 'aes \<Rightarrow> byte list \<Rightarrow> c_int \<Rightarrow>
   (byte list \<times> byte list, 's, 'rsa, 'ec) prog" where
  "AES_cbc_encrypt lib inp out off len key ivec enc w =
     (if length inp < len \<or> length ivec < 16 then Inl Out_of_bounds
      else
        (let r = (if enc \<noteq> 0 then cbc128_encrypt (AES_encrypt lib key) inp len (take 16 ivec)
                  else cbc128_decrypt (AES_decrypt lib key) inp len (take 16 ivec))
         in case std_copy (fst r) out off of
              Inl err \<Rightarrow> Inl err
            | Inr out' \<Rightarrow>
           (case std_copy (snd r) ivec 0 of
              Inl err \<Rightarrow> Inl err
            | Inr ivec' \<Rightarrow> Inr ((out', ivec'), logged AES_cbc_encrypt_call w))))"


section \<open>The sample: class \<^verbatim>\<open>QuantumVulnerableCrypto\<close> and the driver\<close>

definition generateRSAKeys :: "('s, 'rsa, 'aes, 'ec) openssl \<Rightarrow> (ptr, 's, 'rsa, 'ec) prog" where
  "generateRSAKeys lib =
     bnd (RSA_new lib) (\<lambda>rsa.
     bnd (BN_new lib) (\<lambda>bne.
     bnd (BN_set_word bne RSA_F4) (\<lambda>_.
     bnd (RSA_generate_key_ex lib rsa 2048 bne) (\<lambda>_.
     bnd (BN_free bne) (\<lambda>_.
     ret rsa)))))"

definition encryptRSA ::
  "('s, 'rsa, 'aes, 'ec) openssl \<Rightarrow> ptr \<Rightarrow> byte list \<Rightarrow> (byte list, 's, 'rsa, 'ec) prog" where
  "encryptRSA lib rsa message =
     bnd (RSA_size lib rsa) (\<lambda>n.
     bnd (lift (vector_create (size_t_of_int n))) (\<lambda>encrypted.
     bnd (RSA_public_encrypt lib (int_of_size_t (length message)) message encrypted rsa
            RSA_PKCS1_PADDING) (\<lambda>(encryptedLength, encrypted).
     bnd (lift (vector_resize (size_t_of_int encryptedLength) encrypted)) (\<lambda>encrypted.
     ret encrypted))))"

definition generateAES128Key :: "('s, 'rsa, 'aes, 'ec) openssl \<Rightarrow> (byte list, 's, 'rsa, 'ec) prog" where
  "generateAES128Key lib =
     bnd (lift (vector_create 16)) (\<lambda>key.
     bnd (RAND_bytes lib key (int_of_size_t (length key))) (\<lambda>(_, key).
     ret key))"

text \<open>
  \<^verbatim>\<open>size_t paddedLength = ((message.length() / AES_BLOCK_SIZE) + 1) * AES_BLOCK_SIZE\<close>, in
  \<^verbatim>\<open>size_t\<close> arithmetic.
\<close>

definition paddedLength :: "byte list \<Rightarrow> nat" where
  "paddedLength message =
     size_t_wrap (int (size_t_wrap (int (length message div AES_BLOCK_SIZE) + 1)) * int AES_BLOCK_SIZE)"

definition encryptAES ::
  "('s, 'rsa, 'aes, 'ec) openssl \<Rightarrow> byte list \<Rightarrow> byte list \<Rightarrow> (byte list, 's, 'rsa, 'ec) prog" where
  "encryptAES lib key message =
     bnd (lift (vector_create AES_BLOCK_SIZE)) (\<lambda>iv.
     bnd (RAND_bytes lib iv (int_of_size_t (length iv))) (\<lambda>(_, iv).
     bnd (lift (vector_create (size_t_wrap (int (length iv) + int (paddedLength message))))) (\<lambda>output.
     bnd (lift (std_copy iv output 0)) (\<lambda>output.
     bnd (lift (vector_create (paddedLength message))) (\<lambda>paddedMessage.
     bnd (lift (std_copy message paddedMessage 0)) (\<lambda>paddedMessage.
     bnd (AES_set_encrypt_key lib key 128) (\<lambda>(_, aesKey).
     bnd (AES_cbc_encrypt lib paddedMessage output (length iv) (paddedLength message) aesKey iv
            AES_ENCRYPT) (\<lambda>(output, iv).
     ret output))))))))"

definition generateECCKeys :: "('s, 'rsa, 'aes, 'ec) openssl \<Rightarrow> (ptr, 's, 'rsa, 'ec) prog" where
  "generateECCKeys lib =
     bnd (EC_KEY_new_by_curve_name lib NID_X9_62_prime256v1) (\<lambda>key.
     bnd (EC_KEY_generate_key lib key) (\<lambda>_.
     ret key))"

definition signECC ::
  "('s, 'rsa, 'aes, 'ec) openssl \<Rightarrow> ptr \<Rightarrow> byte list \<Rightarrow> (byte list, 's, 'rsa, 'ec) prog" where
  "signECC lib key data =
     bnd (ECDSA_size lib key) (\<lambda>n.
     bnd (ret (uint_of_int n)) (\<lambda>sigLen.
     bnd (lift (vector_create (size_t_of_uint sigLen))) (\<lambda>signature.
     bnd (ECDSA_sign lib 0 data (int_of_size_t (length data)) signature sigLen key)
           (\<lambda>(_, signature, sigLen).
     bnd (lift (vector_resize (size_t_of_uint sigLen) signature)) (\<lambda>signature.
     ret signature)))))"

text \<open>The bytes of a string literal, and a line written to \<^verbatim>\<open>std::cout\<close>.\<close>

definition bytes_of :: "string \<Rightarrow> byte list" where
  "bytes_of s = map of_char s"

definition print_length :: "string \<Rightarrow> nat \<Rightarrow> (unit, 's, 'rsa, 'ec) prog" where
  "print_length what n w = Inr ((), w\<lparr>console := console w @ [(what, n)]\<rparr>)"

definition main :: "('s, 'rsa, 'aes, 'ec) openssl \<Rightarrow> (c_int, 's, 'rsa, 'ec) prog" where
  "main lib =
     bnd (generateRSAKeys lib) (\<lambda>rsaKey.
     bnd (ret (bytes_of ''Secret message for RSA encryption'')) (\<lambda>message.
     bnd (encryptRSA lib rsaKey message) (\<lambda>encrypted.
     bnd (print_length ''RSA encrypted data'' (length encrypted)) (\<lambda>_.
     bnd (generateAES128Key lib) (\<lambda>aesKey.
     bnd (ret (bytes_of ''Secret message for AES encryption'')) (\<lambda>message.
     bnd (encryptAES lib aesKey message) (\<lambda>encryptedAes.
     bnd (print_length ''AES encrypted data'' (length encryptedAes)) (\<lambda>_.
     bnd (generateECCKeys lib) (\<lambda>eccKey.
     bnd (ret (bytes_of ''Message for ECC signing'')) (\<lambda>dataBytes.
     bnd (signECC lib eccKey dataBytes) (\<lambda>signature.
     bnd (print_length ''ECC signature created'' (length signature)) (\<lambda>_.
     bnd (RSA_free rsaKey) (\<lambda>_.
     bnd (EC_KEY_free eccKey) (\<lambda>_.
     ret 0))))))))))))))"


section \<open>Cipher block chaining as the standard defines it\<close>

text \<open>
  The plaintext is cut into blocks of 16 bytes; the first ciphertext block is the
  encryption of the first plaintext block combined (exclusive or) with the
  initialization vector, every later one the encryption of its plaintext block combined
  with the ciphertext block before it. The ciphertext is the concatenation of the
  ciphertext blocks.
\<close>

function blocks_of :: "byte list \<Rightarrow> byte list list" where
  "blocks_of xs = (if xs = [] then [] else take 16 xs # blocks_of (drop 16 xs))"
  by pat_completeness auto
termination
  by (relation "measure length") auto

fun cbc_chain :: "(byte list \<Rightarrow> byte list) \<Rightarrow> byte list \<Rightarrow> byte list list \<Rightarrow> byte list list" where
  "cbc_chain E prev [] = []"
| "cbc_chain E prev (p # ps) = (let c = E (xor_bytes p prev) in c # cbc_chain E c ps)"

definition CBC_encrypt :: "(byte list \<Rightarrow> byte list) \<Rightarrow> byte list \<Rightarrow> byte list \<Rightarrow> byte list" where
  "CBC_encrypt E iv plaintext = concat (cbc_chain E iv (blocks_of plaintext))"

section \<open>What the library's documentation promises\<close>

text \<open>
  \<^verbatim>\<open>RSA_public_encrypt\<close> returns the size of the ciphertext, which is \<^verbatim>\<open>RSA_size(rsa)\<close>,
  or \<open>-1\<close> on error.
\<close>

definition RSA_public_encrypt_contract :: "('s, 'rsa, 'aes, 'ec) openssl \<Rightarrow> bool" where
  "RSA_public_encrypt_contract lib \<longleftrightarrow>
     (\<forall>flen from k padding s.
        fst (fst (lib_RSA_public_encrypt lib flen from k padding s)) = - 1 \<or>
        fst (fst (lib_RSA_public_encrypt lib flen from k padding s)) = lib_RSA_size lib k)"

text \<open>
  A key generated with a modulus of \<open>bits\<close> bits has \<^verbatim>\<open>RSA_size\<close> equal to the number
  of bytes of the modulus; \<^verbatim>\<open>RSA_generate_key_ex\<close> returns 1 on success.
\<close>

definition RSA_generate_key_ex_contract :: "('s, 'rsa, 'aes, 'ec) openssl \<Rightarrow> bool" where
  "RSA_generate_key_ex_contract lib \<longleftrightarrow>
     (\<forall>k bits e s.
        fst (fst (lib_RSA_generate_key_ex lib k bits e s)) = 1 \<longrightarrow>
        sint (lib_RSA_size lib (snd (fst (lib_RSA_generate_key_ex lib k bits e s)))) =
          (sint bits + 7) div 8)"

text \<open>
  \<^verbatim>\<open>ECDSA_size(eckey)\<close> is the maximum length of a signature made with \<open>eckey\<close>; the
  length \<^verbatim>\<open>ECDSA_sign\<close> stores in \<open>*siglen\<close> does not exceed it.
\<close>

definition ECDSA_sign_contract :: "('s, 'rsa, 'aes, 'ec) openssl \<Rightarrow> bool" where
  "ECDSA_sign_contract lib \<longleftrightarrow>
     (\<forall>type dgst dgstlen k s.
        int (unat (snd (snd (fst (lib_ECDSA_sign lib type dgst dgstlen k s))))) \<le>
          sint (lib_ECDSA_size lib k))"

text \<open>The same library, except that \<^verbatim>\<open>ECDSA_sign\<close> returns the code \<open>r\<close>.\<close>

definition ECDSA_sign_returning ::
  "c_int \<Rightarrow> ('s, 'rsa, 'aes, 'ec) openssl \<Rightarrow> ('s, 'rsa, 'aes, 'ec) openssl" where
  "ECDSA_sign_returning r lib =
     lib\<lparr>lib_ECDSA_sign := \<lambda>type dgst dgstlen k s.
           (case lib_ECDSA_sign lib type dgst dgstlen k s of ((_, out), s') \<Rightarrow> ((r, out), s'))\<rparr>"

section \<open>A small instance of the library\<close>

text \<open>
  An instance on which the sample can be run: the library state counts the calls that
  draw random bytes, an RSA key object is its modulus size in bits, an expanded AES key
  is the user key, the block cipher is exclusive or with the key (an involution), and
  RSA encryption fails when the message does not fit below the padding.
\<close>

definition demo_lib :: "(nat, c_int, byte list, unit) openssl" where
  "demo_lib = \<lparr>
     lib_RSA_new = (\<lambda>s. (Some 0, s)),
     lib_BN_new = (\<lambda>s. (True, s)),
     lib_RSA_generate_key_ex = (\<lambda>k bits e s. ((1, bits), s)),
     lib_RSA_size = (\<lambda>k. word_of_int ((sint k + 7) div 8)),
     lib_RSA_public_encrypt = (\<lambda>flen from k padding s.
        if sint flen + 11 \<le> (sint k + 7) div 8
        then ((word_of_int ((sint k + 7) div 8),
               replicate (nat ((sint k + 7) div 8)) (word_of_nat s)), Suc s)
        else ((- 1, []), s)),
     lib_RAND_bytes = (\<lambda>num s. ((1, replicate (nat (sint num)) (word_of_nat s)), Suc s)),
     lib_AES_set_encrypt_key = (\<lambda>userKey bits. (0, userKey)),
     lib_AES_set_decrypt_key = (\<lambda>userKey bits. (0, userKey)),
     lib_AES_encrypt = (\<lambda>key b. xor_bytes b key),
     lib_AES_decrypt = (\<lambda>key b. xor_bytes b key),
     lib_EC_KEY_new_by_curve_name = (\<lambda>nid s. (Some (), s)),
     lib_EC_KEY_generate_key = (\<lambda>k s. ((1, k), s)),
     lib_ECDSA_size = (\<lambda>k. 72),
     lib_ECDSA_sign = (\<lambda>type dgst dgstlen k s. ((1, replicate 70 48, 70), s))
   \<rparr>"

text \<open>
  A world with a 2048-bit and a 64-bit RSA key and an EC key, and the world the driver
  starts in.
\<close>

definition demo_world :: "(nat, c_int, unit) world" where
  "demo_world = \<lparr> lib_state = 7, rsa_heap = [Some 2048, Some 64], bn_heap = [],
     ec_heap = [Some ()], trace = [], console = [] \<rparr>"

definition initial_world :: "(nat, c_int, unit) world" where
  "initial_world = \<lparr> lib_state = 0, rsa_heap = [], bn_heap = [], ec_heap = [],
     trace = [], console = [] \<rparr>"

section \<open>Integer conversions and vectors\<close>

declare cbc128_encrypt.simps [simp del] cbc128_decrypt.simps [simp del] blocks_of.simps [simp del]

lemma size_t_of_int_neg:
  assumes "sint i < 0" shows "size_t_of_int i = nat (2 ^ 64 + sint i)"
proof -
  have lo: "- (2 ^ 31) \<le> sint i" using sint_ge [of i] by simp
  have "sint i mod 2 ^ 64 = (sint i + 2 ^ 64) mod 2 ^ 64" by simp
  also have "\<dots> = sint i + 2 ^ 64"
    by (rule mod_pos_pos_trivial) (use lo assms in auto)
  finally show ?thesis
    by (simp add: size_t_of_int_def size_t_wrap_def add.commute)
qed

lemma size_t_of_int_nonneg:
  assumes "0 \<le> sint i" shows "size_t_of_int i = nat (sint i)"
proof -
  have "sint i < 2 ^ 31" using sint_lt [of i] by simp
  then have "sint i mod 2 ^ 64 = sint i"
    using assms by (intro mod_pos_pos_trivial) auto
  then show ?thesis
    by (simp add: size_t_of_int_def size_t_wrap_def)
qed

lemma size_t_of_int_neg_too_large:
  assumes "sint i < 0" shows "vector_max_size < size_t_of_int i"
proof -
  have "- (2 ^ 31) \<le> sint i" using sint_ge [of i] by simp
  then show ?thesis
    by (simp add: size_t_of_int_neg [OF assms] vector_max_size_def)
qed

lemma size_t_of_int_nonneg_fits:
  assumes "0 \<le> sint i" shows "size_t_of_int i \<le> vector_max_size"
proof -
  have "sint i < 2 ^ 31" using sint_lt [of i] by simp
  then show ?thesis
    by (simp add: size_t_of_int_nonneg [OF assms] vector_max_size_def)
qed

lemma size_t_wrap_small: "n < 2 ^ 64 \<Longrightarrow> size_t_wrap (int n) = n"
proof -
  assume "n < 2 ^ 64"
  then have "int n < 2 ^ 64" by simp
  then have "int n mod 2 ^ 64 = int n" by (intro mod_pos_pos_trivial) auto
  then show ?thesis by (simp add: size_t_wrap_def)
qed

lemma unat_of_nonneg_sint: "0 \<le> sint (n :: c_int) \<Longrightarrow> unat n = nat (sint n)"
proof -
  assume nn: "0 \<le> sint n"
  have "sint n < 2 ^ 32" using sint_lt [of n] by simp
  with nn have "uint n = sint n"
    by (simp add: uint_sint take_bit_int_eq_self)
  then show ?thesis by (simp flip: nat_uint_eq)
qed

lemma nat_sint_le_unat: "nat (sint (n :: c_int)) \<le> unat n"
  by (cases "0 \<le> sint n") (simp_all add: unat_of_nonneg_sint)

lemma vector_create_neg: "sint n < 0 \<Longrightarrow> vector_create (size_t_of_int n) = Inl Length_error"
  by (simp add: vector_create_def size_t_of_int_neg_too_large)

lemma vector_create_nonneg:
  "0 \<le> sint n \<Longrightarrow> vector_create (size_t_of_int n) = Inr (replicate (nat (sint n)) 0)"
  using size_t_of_int_nonneg_fits [of n] by (simp add: vector_create_def size_t_of_int_nonneg)

lemma vector_resize_neg: "sint n < 0 \<Longrightarrow> vector_resize (size_t_of_int n) v = Inl Length_error"
  by (simp add: vector_resize_def size_t_of_int_neg_too_large)

lemma vector_resize_nonneg:
  "0 \<le> sint n \<Longrightarrow>
   vector_resize (size_t_of_int n) v = Inr (take (nat (sint n)) v @ replicate (nat (sint n) - length v) 0)"
  using size_t_of_int_nonneg_fits [of n] by (simp add: vector_resize_def size_t_of_int_nonneg)

lemma vector_create_uint: "vector_create (size_t_of_uint u) = Inr (replicate (unat u) 0)"
  using unsigned_less [of u, where ?'a = nat]
  by (simp add: vector_create_def size_t_of_uint_def vector_max_size_def)

lemma vector_resize_uint:
  "vector_resize (size_t_of_uint u) v = Inr (take (unat u) v @ replicate (unat u - length v) 0)"
  using unsigned_less [of u, where ?'a = nat]
  by (simp add: vector_resize_def size_t_of_uint_def vector_max_size_def)

lemma std_copy_prefix:
  "length src \<le> length dst \<Longrightarrow> std_copy src dst 0 = Inr (src @ drop (length src) dst)"
  by (simp add: std_copy_def)

section \<open>RSA encryption and ECDSA signing, step by step\<close>

text \<open>
  With a live key handle, \<open>encryptRSA\<close> is the construction of the buffer followed by
  the \<^verbatim>\<open>resize\<close> to the converted return value: nothing else decides its result.
\<close>

lemma encryptRSA_eq:
  assumes k: "deref (rsa_heap w) rsa = Inr k"
    and call: "lib_RSA_public_encrypt lib (int_of_size_t (length message)) message k
                 RSA_PKCS1_PADDING (lib_state w) = ((rc, written), s')"
  shows "encryptRSA lib rsa message w =
     (case vector_create (size_t_of_int (lib_RSA_size lib k)) of
        Inl e \<Rightarrow> Inl e
      | Inr buf \<Rightarrow>
         (case vector_resize (size_t_of_int rc)
                 (take (length buf) written @ drop (length (take (length buf) written)) buf) of
            Inl e \<Rightarrow> Inl e
          | Inr c \<Rightarrow> Inr (c, w\<lparr>lib_state := s',
                 trace := trace w @ [RSA_size_call rsa, RSA_public_encrypt_call rsa]\<rparr>)))"
proof (cases "sint (lib_RSA_size lib k) < 0")
  case True
  then show ?thesis
    using k by (simp add: encryptRSA_def bnd_def RSA_size_def lift_def vector_create_neg)
next
  case False
  then have nn: "0 \<le> sint (lib_RSA_size lib k)" by simp
  show ?thesis
    using k call
    by (simp add: encryptRSA_def bnd_def RSA_size_def lift_def vector_create_nonneg [OF nn]
        RSA_public_encrypt_def logged_def std_copy_prefix ret_def split: sum.splits)
qed

lemma encryptRSA_dead_handle:
  "deref (rsa_heap w) rsa = Inl e \<Longrightarrow> encryptRSA lib rsa message w = Inl e"
  by (simp add: encryptRSA_def bnd_def RSA_size_def)

lemma signECC_eq:
  assumes k: "deref (ec_heap w) key = Inr k"
    and call: "lib_ECDSA_sign lib 0 data (int_of_size_t (length data)) k (lib_state w) =
                 ((rc, written, sigLen), s')"
    and stored: "stored = take (nat (sint (lib_ECDSA_size lib k))) written"
    and buf: "buf = stored @ drop (length stored) (replicate (unat (lib_ECDSA_size lib k)) 0)"
  shows "signECC lib key data w =
     Inr (take (unat sigLen) buf @ replicate (unat sigLen - length buf) 0,
          w\<lparr>lib_state := s', trace := trace w @ [ECDSA_size_call key, ECDSA_sign_call key]\<rparr>)"
proof -
  have "length stored \<le> unat (lib_ECDSA_size lib k)"
    using nat_sint_le_unat [of "lib_ECDSA_size lib k"] by (simp add: stored)
  then have cp: "std_copy (take (nat (sint (lib_ECDSA_size lib k))) written)
                   (replicate (unat (lib_ECDSA_size lib k)) 0) 0 = Inr buf"
    unfolding buf stored [symmetric] by (simp add: std_copy_prefix)
  show ?thesis
    using k call
    by (simp add: signECC_def bnd_def ECDSA_size_def lift_def ret_def uint_of_int_def
        vector_create_uint vector_resize_uint ECDSA_sign_def logged_def cp)
qed

lemma signECC_dead_handle:
  "deref (ec_heap w) key = Inl e \<Longrightarrow> signECC lib key data w = Inl e"
  by (simp add: signECC_def bnd_def ECDSA_size_def)


lemma vector_resize_length: "vector_resize n v = Inr v' \<Longrightarrow> length v' = n"
  by (auto simp: vector_resize_def split: if_splits)

lemma length_resized: "length (take n v @ replicate (n - length v) 0) = n"
  by simp

lemma signECC_ignores_return_code:
  "signECC (ECDSA_sign_returning r lib) key data w = signECC lib key data w"
proof (cases "deref (ec_heap w) key")
  case (Inl e)
  then show ?thesis by (simp add: signECC_dead_handle)
next
  case (Inr k)
  obtain rc written sigLen s' where
    call: "lib_ECDSA_sign lib 0 data (int_of_size_t (length data)) k (lib_state w) =
             ((rc, written, sigLen), s')"
    by (metis prod.exhaust)
  then have call': "lib_ECDSA_sign (ECDSA_sign_returning r lib) 0 data (int_of_size_t (length data)) k
             (lib_state w) = ((r, written, sigLen), s')"
    by (simp add: ECDSA_sign_returning_def)
  have size: "lib_ECDSA_size (ECDSA_sign_returning r lib) = lib_ECDSA_size lib"
    by (simp add: ECDSA_sign_returning_def)
  show ?thesis
    by (simp only: signECC_eq [OF Inr call refl refl] signECC_eq [OF Inr call' refl refl] size)
qed

section \<open>Handles and key generation\<close>

lemma deref_new: "deref (h @ [Some v]) (Ptr (length h)) = Inr v"
  by simp

lemma update_new: "update (h @ [Some v]) (Ptr (length h)) v' = Inr (h @ [Some v'])"
  by simp

lemma release_new: "release (h @ [Some v]) (Ptr (length h)) = Inr (h @ [None])"
  by simp

lemma live_released: "live (h @ [None]) = live h"
  by (auto simp: live_def nth_append)

lemma live_new: "live (h @ [Some v]) = insert (length h) (live h)"
  by (auto simp: live_def nth_append)

lemma generateRSAKeys_eq:
  assumes "lib_RSA_new lib (lib_state w) = (Some k0, s1)"
    and "lib_BN_new lib s1 = (True, s2)"
    and "lib_RSA_generate_key_ex lib k0 2048 RSA_F4 s2 = ((rc, k1), s3)"
  shows "generateRSAKeys lib w =
     Inr (Ptr (length (rsa_heap w)),
          w\<lparr>lib_state := s3, rsa_heap := rsa_heap w @ [Some k1], bn_heap := bn_heap w @ [None],
            trace := trace w @
              [RSA_new_call (Ptr (length (rsa_heap w))), BN_new_call (Ptr (length (bn_heap w))),
               BN_set_word_call (Ptr (length (bn_heap w))),
               RSA_generate_key_ex_call (Ptr (length (rsa_heap w))) (Ptr (length (bn_heap w))),
               BN_free_call (Ptr (length (bn_heap w)))]\<rparr>)"
  using assms
  by (simp add: generateRSAKeys_def bnd_def ret_def RSA_new_def BN_new_def BN_set_word_def
      RSA_generate_key_ex_def BN_free_def alloc_def logged_def)

section \<open>The small instance, evaluated\<close>

lemma demo_rsa_fails:
  "lib_RSA_public_encrypt demo_lib (int_of_size_t (length (bytes_of ''hello''))) (bytes_of ''hello'')
     64 RSA_PKCS1_PADDING (lib_state demo_world) = ((- 1, []), 7)"
  by (simp add: demo_lib_def demo_world_def int_of_size_t_def bytes_of_def)

lemma demo_rsa_key_1: "deref (rsa_heap demo_world) (Ptr 1) = Inr 64"
  by (simp add: demo_world_def)
lemma demo_rsa_key_0: "deref (rsa_heap demo_world) (Ptr 0) = Inr 2048"
  by (simp add: demo_world_def)

lemma demo_ec_key_0: "deref (ec_heap demo_world) (Ptr 0) = Inr ()"
  by (simp add: demo_world_def)

lemma demo_rsa_succeeds:
  "lib_RSA_public_encrypt demo_lib (int_of_size_t (length (bytes_of ''hello''))) (bytes_of ''hello'')
     2048 RSA_PKCS1_PADDING (lib_state demo_world) = ((256, replicate 256 7), 8)"
  by (simp add: demo_lib_def demo_world_def int_of_size_t_def bytes_of_def)

lemma demo_RSA_size: "lib_RSA_size demo_lib 2048 = 256" "lib_RSA_size demo_lib 64 = 8"
  by (simp_all add: demo_lib_def)

lemma demo_ECDSA_size: "lib_ECDSA_size demo_lib k = 72"
  by (simp add: demo_lib_def)

lemma demo_encryptRSA:
  "encryptRSA demo_lib (Ptr 0) (bytes_of ''hello'') demo_world =
     Inr (replicate 256 7, demo_world\<lparr>lib_state := 8,
       trace := trace demo_world @ [RSA_size_call (Ptr 0), RSA_public_encrypt_call (Ptr 0)]\<rparr>)"
  by (simp add: encryptRSA_eq [OF demo_rsa_key_0 demo_rsa_succeeds] demo_RSA_size
      vector_create_nonneg vector_resize_nonneg)

lemma demo_ecdsa_signs:
  "lib_ECDSA_sign demo_lib 0 (bytes_of ''hello'') (int_of_size_t (length (bytes_of ''hello''))) ()
     (lib_state demo_world) = ((1, replicate 70 48, 70), 7)"
  by (simp add: demo_lib_def demo_world_def)

lemma demo_signECC:
  "signECC demo_lib (Ptr 0) (bytes_of ''hello'') demo_world =
     Inr (replicate 70 48, demo_world\<lparr>lib_state := 7,
       trace := trace demo_world @ [ECDSA_size_call (Ptr 0), ECDSA_sign_call (Ptr 0)]\<rparr>)"
  by (simp add: signECC_eq [OF demo_ec_key_0 demo_ecdsa_signs refl refl] demo_ECDSA_size)
lemma demo_ECDSA_sign_contract: "ECDSA_sign_contract demo_lib"
  by (simp add: ECDSA_sign_contract_def demo_lib_def)
lemma demo_vector_8: "vector_create (size_t_of_int (lib_RSA_size demo_lib 64)) = Inr (replicate 8 0)"
  by (simp add: demo_RSA_size vector_create_nonneg)
lemma sint_word_of_bytes: "sint (word_of_int ((sint (k :: c_int) + 7) div 8) :: c_int) = (sint k + 7) div 8"
proof -
  have "- 2147483648 \<le> sint k" "sint k < 2147483648"
    using sint_ge [of k] sint_lt [of k] by simp_all
  then have "- 2147483648 \<le> (sint k + 7) div 8" "(sint k + 7) div 8 < 2147483648"
    by linarith+
  then have "signed_take_bit 31 ((sint k + 7) div 8) = (sint k + 7) div 8"
    by (intro signed_take_bit_int_eq_self) simp_all
  then show ?thesis by (simp add: sint_sbintrunc')
qed

lemma demo_RSA_public_encrypt_contract: "RSA_public_encrypt_contract demo_lib"
  by (simp add: RSA_public_encrypt_contract_def demo_lib_def)

lemma demo_RSA_generate_key_ex_contract: "RSA_generate_key_ex_contract demo_lib"
  by (simp add: RSA_generate_key_ex_contract_def demo_lib_def sint_word_of_bytes)

lemma demo_keygen:
  "lib_RSA_new demo_lib (lib_state initial_world) = (Some 0, 0)"
  "lib_BN_new demo_lib 0 = (True, 0)"
  "lib_RSA_generate_key_ex demo_lib 0 2048 RSA_F4 0 = ((1, 2048), 0)"
  by (simp_all add: demo_lib_def initial_world_def)

section \<open>Public-key encryption and signing: what the sample guarantees\<close>

text \<open>
  Claim C2. If public-key encryption of the message fails, that is, \<^verbatim>\<open>RSA_public_encrypt\<close>
  returns its sentinel (a negative length, \<open>-1\<close>), then \<open>encryptRSA\<close> does not return
  a ciphertext buffer: the call ends with an exception that reaches the caller.
  The sample has no test of the return value. The sentinel converted to \<^verbatim>\<open>size_t\<close>
  exceeds \<^verbatim>\<open>max_size()\<close>, so \<^verbatim>\<open>encrypted.resize(encryptedLength)\<close> throws
  \<^verbatim>\<open>std::length_error\<close>.
\<close>

theorem encryptRSA_failure_is_signalled:
  assumes "deref (rsa_heap w) rsa = Inr k"
    and "lib_RSA_public_encrypt lib (int_of_size_t (length message)) message k
           RSA_PKCS1_PADDING (lib_state w) = ((rc, written), s')"
    and "sint rc < 0"
  shows "encryptRSA lib rsa message w = Inl Length_error"
  using assms(3)
  by (simp add: encryptRSA_eq [OF assms(1,2)] vector_resize_neg split: sum.splits)
    (simp add: vector_create_def split: if_splits)

theorem encryptRSA_failure_is_signalled_witness:
  "deref (rsa_heap demo_world) (Ptr 1) = Inr 64 \<and>
   lib_RSA_public_encrypt demo_lib (int_of_size_t (length (bytes_of ''hello''))) (bytes_of ''hello'')
     64 RSA_PKCS1_PADDING (lib_state demo_world) = ((- 1, []), 7) \<and>
   sint (- 1 :: c_int) < 0 \<and>
   encryptRSA demo_lib (Ptr 1) (bytes_of ''hello'') demo_world = Inl Length_error"
  using encryptRSA_failure_is_signalled [OF demo_rsa_key_1 demo_rsa_fails] demo_rsa_key_1 demo_rsa_fails
  by simp

text \<open>
  Claim C3. No return code of the library is inspected. For every outcome of
  \<^verbatim>\<open>RSA_public_encrypt\<close> the result of \<open>encryptRSA\<close> is the \<^verbatim>\<open>resize\<close> of the buffer
  to the converted return value and nothing else; when the library reports failure
  with a negative length \<open>rc\<close>, the size handed to \<^verbatim>\<open>resize\<close> is that sentinel read as a
  \<^verbatim>\<open>size_t\<close>, \<open>2 ^ 64 + rc\<close>, which is no valid buffer length. The result of \<open>signECC\<close>
  is the same whatever code \<^verbatim>\<open>ECDSA_sign\<close> returns.
\<close>

theorem return_codes_are_not_inspected:
  assumes "deref (rsa_heap w) rsa = Inr k"
    and "lib_RSA_public_encrypt lib (int_of_size_t (length message)) message k
           RSA_PKCS1_PADDING (lib_state w) = ((rc, written), s')"
    and "vector_create (size_t_of_int (lib_RSA_size lib k)) = Inr encrypted"
  shows "encryptRSA lib rsa message w =
           (case vector_resize (size_t_of_int rc)
                   (take (length encrypted) written @
                    drop (length (take (length encrypted) written)) encrypted) of
              Inl e \<Rightarrow> Inl e
            | Inr c \<Rightarrow> Inr (c, w\<lparr>lib_state := s',
                  trace := trace w @ [RSA_size_call rsa, RSA_public_encrypt_call rsa]\<rparr>)) \<and>
         (sint rc < 0 \<longrightarrow>
            size_t_of_int rc = nat (2 ^ 64 + sint rc) \<and> vector_max_size < size_t_of_int rc) \<and>
         signECC (ECDSA_sign_returning r lib) key data v = signECC lib key data v"
proof (intro conjI impI)
  show "encryptRSA lib rsa message w =
           (case vector_resize (size_t_of_int rc)
                   (take (length encrypted) written @
                    drop (length (take (length encrypted) written)) encrypted) of
              Inl e \<Rightarrow> Inl e
            | Inr c \<Rightarrow> Inr (c, w\<lparr>lib_state := s',
                  trace := trace w @ [RSA_size_call rsa, RSA_public_encrypt_call rsa]\<rparr>))"
    by (simp add: encryptRSA_eq [OF assms(1,2)] assms(3))
  show "size_t_of_int rc = nat (2 ^ 64 + sint rc)" if "sint rc < 0"
    using that by (rule size_t_of_int_neg)
  show "vector_max_size < size_t_of_int rc" if "sint rc < 0"
    using that by (rule size_t_of_int_neg_too_large)
  show "signECC (ECDSA_sign_returning r lib) key data v = signECC lib key data v"
    by (rule signECC_ignores_return_code)
qed

theorem return_codes_are_not_inspected_witness:
  "deref (rsa_heap demo_world) (Ptr 1) = Inr 64 \<and>
   lib_RSA_public_encrypt demo_lib (int_of_size_t (length (bytes_of ''hello''))) (bytes_of ''hello'')
     64 RSA_PKCS1_PADDING (lib_state demo_world) = ((- 1, []), 7) \<and>
   vector_create (size_t_of_int (lib_RSA_size demo_lib 64)) = Inr (replicate 8 0) \<and>
   encryptRSA demo_lib (Ptr 1) (bytes_of ''hello'') demo_world =
     (case vector_resize (size_t_of_int (- 1)) (replicate 8 0) of
        Inl e \<Rightarrow> Inl e
      | Inr c \<Rightarrow> Inr (c, demo_world\<lparr>lib_state := 7,
            trace := trace demo_world @ [RSA_size_call (Ptr 1), RSA_public_encrypt_call (Ptr 1)]\<rparr>)) \<and>
   sint (- 1 :: c_int) < 0 \<and>
   size_t_of_int (- 1) = 18446744073709551615 \<and>
   vector_max_size < size_t_of_int (- 1) \<and>
   signECC (ECDSA_sign_returning 0 demo_lib) (Ptr 0) (bytes_of ''hello'') demo_world =
     signECC demo_lib (Ptr 0) (bytes_of ''hello'') demo_world"
  using return_codes_are_not_inspected [OF demo_rsa_key_1 demo_rsa_fails demo_vector_8,
      of 0 "Ptr 0" "bytes_of ''hello''" demo_world]
    demo_rsa_key_1 demo_rsa_fails demo_vector_8
  by simp

text \<open>
  Claim C4. For every RSA key and every message, when the library's public-key
  encryption succeeds (it returns a length, not the sentinel), the ciphertext returned by
  \<open>encryptRSA\<close> has length exactly \<^verbatim>\<open>RSA_size(rsa)\<close>; for the key that
  \<open>generateRSAKeys\<close> generates, with its modulus of 2048 bits, that is 256 bytes.
  The library is taken to keep what its documentation promises
  (\<open>RSA_public_encrypt_contract\<close>, \<open>RSA_generate_key_ex_contract\<close>).
\<close>

theorem ciphertext_length_is_RSA_size:
  assumes "RSA_public_encrypt_contract lib"
    and "RSA_generate_key_ex_contract lib"
    and "deref (rsa_heap w) rsa = Inr k"
    and "lib_RSA_public_encrypt lib (int_of_size_t (length message)) message k
           RSA_PKCS1_PADDING (lib_state w) = ((rc, written), s')"
    and "0 \<le> sint rc"
    and "lib_RSA_new lib (lib_state v) = (Some k0, s1)"
    and "lib_BN_new lib s1 = (True, s2)"
    and "lib_RSA_generate_key_ex lib k0 2048 RSA_F4 s2 = ((1, k1), s3)"
  shows "(\<exists>encrypted w'. encryptRSA lib rsa message w = Inr (encrypted, w') \<and>
            int (length encrypted) = sint (lib_RSA_size lib k)) \<and>
         (\<exists>rsaKey v'. generateRSAKeys lib v = Inr (rsaKey, v') \<and>
            deref (rsa_heap v') rsaKey = Inr k1 \<and> sint (lib_RSA_size lib k1) = 256)"
proof
  have "rc = - 1 \<or> rc = lib_RSA_size lib k"
    using assms(1) [unfolded RSA_public_encrypt_contract_def, rule_format,
        of "int_of_size_t (length message)" message k RSA_PKCS1_PADDING "lib_state w"]
    by (simp add: assms(4))
  with assms(5) have rc: "rc = lib_RSA_size lib k" by auto
  with assms(5) have nn: "0 \<le> sint (lib_RSA_size lib k)" by simp
  show "\<exists>encrypted w'. encryptRSA lib rsa message w = Inr (encrypted, w') \<and>
            int (length encrypted) = sint (lib_RSA_size lib k)"
    using nn
    by (simp add: encryptRSA_eq [OF assms(3,4)] rc vector_create_nonneg vector_resize_nonneg)
  have "sint (lib_RSA_size lib k1) = (sint (2048 :: c_int) + 7) div 8"
    using assms(2) [unfolded RSA_generate_key_ex_contract_def, rule_format, of k0 2048 RSA_F4 s2]
    by (simp add: assms(8))
  then have "sint (lib_RSA_size lib k1) = 256" by simp
  then show "\<exists>rsaKey v'. generateRSAKeys lib v = Inr (rsaKey, v') \<and>
            deref (rsa_heap v') rsaKey = Inr k1 \<and> sint (lib_RSA_size lib k1) = 256"
    by (simp add: generateRSAKeys_eq [OF assms(6,7,8)])
qed

theorem ciphertext_length_is_RSA_size_witness:
  "deref (rsa_heap demo_world) (Ptr 0) = Inr 2048 \<and>
   lib_RSA_public_encrypt demo_lib (int_of_size_t (length (bytes_of ''hello''))) (bytes_of ''hello'')
     2048 RSA_PKCS1_PADDING (lib_state demo_world) = ((256, replicate 256 7), 8) \<and>
   0 \<le> sint (256 :: c_int) \<and>
   lib_RSA_new demo_lib (lib_state initial_world) = (Some 0, 0) \<and>
   lib_BN_new demo_lib 0 = (True, 0) \<and>
   lib_RSA_generate_key_ex demo_lib 0 2048 RSA_F4 0 = ((1, 2048), 0) \<and>
   (\<exists>encrypted w'. encryptRSA demo_lib (Ptr 0) (bytes_of ''hello'') demo_world = Inr (encrypted, w') \<and>
      int (length encrypted) = 256) \<and>
   (\<exists>rsaKey v'. generateRSAKeys demo_lib initial_world = Inr (rsaKey, v') \<and>
      deref (rsa_heap v') rsaKey = Inr 2048 \<and> sint (lib_RSA_size demo_lib 2048) = 256)"
proof -
  have ok: "0 \<le> sint (256 :: c_int)" by simp
  show ?thesis
    using ciphertext_length_is_RSA_size [OF demo_RSA_public_encrypt_contract
        demo_RSA_generate_key_ex_contract demo_rsa_key_0 demo_rsa_succeeds ok demo_keygen]
      demo_rsa_key_0 demo_rsa_succeeds demo_keygen
    by (simp add: demo_RSA_size)
qed

text \<open>
  Claim C5. Every buffer that is returned has the length the library reported: the
  ciphertext returned by \<open>encryptRSA\<close> has the length \<^verbatim>\<open>RSA_public_encrypt\<close> returned,
  and the signature returned by \<open>signECC\<close> has the length \<^verbatim>\<open>ECDSA_sign\<close> stored in
  \<open>sigLen\<close>.
\<close>

theorem returned_length_is_reported_length:
  assumes "deref (rsa_heap w) rsa = Inr k"
    and "lib_RSA_public_encrypt lib (int_of_size_t (length message)) message k
           RSA_PKCS1_PADDING (lib_state w) = ((encryptedLength, written), s')"
    and "encryptRSA lib rsa message w = Inr (encrypted, w')"
    and "deref (ec_heap v) key = Inr e"
    and "lib_ECDSA_sign lib 0 data (int_of_size_t (length data)) e (lib_state v) =
           ((rc, stored, sigLen), t')"
    and "signECC lib key data v = Inr (signature, v')"
  shows "int (length encrypted) = sint encryptedLength \<and> length signature = unat sigLen"
proof
  have nn: "0 \<le> sint encryptedLength"
  proof (rule ccontr)
    assume "\<not> 0 \<le> sint encryptedLength"
    then have "encryptRSA lib rsa message w = Inl Length_error"
      using encryptRSA_eq [OF assms(1,2)]
      by (simp add: vector_resize_neg split: sum.splits) (simp add: vector_create_def split: if_splits)
    with assms(3) show False by simp
  qed
  obtain buf where "vector_resize (size_t_of_int encryptedLength) buf = Inr encrypted"
    using assms(3) unfolding encryptRSA_eq [OF assms(1,2)] by (auto split: sum.splits)
  then have "length encrypted = size_t_of_int encryptedLength"
    by (rule vector_resize_length)
  then show "int (length encrypted) = sint encryptedLength"
    using nn by (simp add: size_t_of_int_nonneg)
  let ?buf = "take (nat (sint (lib_ECDSA_size lib e))) stored @
     drop (length (take (nat (sint (lib_ECDSA_size lib e))) stored))
       (replicate (unat (lib_ECDSA_size lib e)) 0)"
  have "signature = take (unat sigLen) ?buf @ replicate (unat sigLen - length ?buf) 0"
    using assms(6) [unfolded signECC_eq [OF assms(4,5) refl refl]]
    by (simp only: sum.inject prod.inject)
  then show "length signature = unat sigLen"
    by (simp only: length_resized)
qed

theorem returned_length_is_reported_length_witness:
  "deref (rsa_heap demo_world) (Ptr 0) = Inr 2048 \<and>
   lib_RSA_public_encrypt demo_lib (int_of_size_t (length (bytes_of ''hello''))) (bytes_of ''hello'')
     2048 RSA_PKCS1_PADDING (lib_state demo_world) = ((256, replicate 256 7), 8) \<and>
   encryptRSA demo_lib (Ptr 0) (bytes_of ''hello'') demo_world =
     Inr (replicate 256 7, demo_world\<lparr>lib_state := 8,
       trace := trace demo_world @ [RSA_size_call (Ptr 0), RSA_public_encrypt_call (Ptr 0)]\<rparr>) \<and>
   deref (ec_heap demo_world) (Ptr 0) = Inr () \<and>
   lib_ECDSA_sign demo_lib 0 (bytes_of ''hello'') (int_of_size_t (length (bytes_of ''hello''))) ()
     (lib_state demo_world) = ((1, replicate 70 48, 70), 7) \<and>
   signECC demo_lib (Ptr 0) (bytes_of ''hello'') demo_world =
     Inr (replicate 70 48, demo_world\<lparr>lib_state := 7,
       trace := trace demo_world @ [ECDSA_size_call (Ptr 0), ECDSA_sign_call (Ptr 0)]\<rparr>) \<and>
   int (length (replicate 256 7 :: byte list)) = sint (256 :: c_int) \<and>
   length (replicate 70 48 :: byte list) = unat (70 :: c_uint)"
  using returned_length_is_reported_length [OF demo_rsa_key_0 demo_rsa_succeeds demo_encryptRSA
      demo_ec_key_0 demo_ecdsa_signs demo_signECC]
    demo_rsa_key_0 demo_rsa_succeeds demo_encryptRSA demo_ec_key_0 demo_ecdsa_signs demo_signECC
  by simp

text \<open>
  Claim C10. For every elliptic-curve key and every data buffer, the signature returned
  by \<open>signECC\<close> is not longer than \<^verbatim>\<open>ECDSA_size(key)\<close>: the buffer handed to
  \<^verbatim>\<open>ECDSA_sign\<close> has \<^verbatim>\<open>ECDSA_size(key)\<close> bytes, and the signature is the prefix of that
  buffer of the length the signing routine reports; the \<^verbatim>\<open>resize\<close> appends nothing.
  The library is taken to report no length above \<^verbatim>\<open>ECDSA_size(key)\<close>
  (\<open>ECDSA_sign_contract\<close>).
\<close>

theorem signature_within_ECDSA_size:
  assumes "ECDSA_sign_contract lib"
    and "deref (ec_heap w) key = Inr k"
    and "lib_ECDSA_sign lib 0 data (int_of_size_t (length data)) k (lib_state w) =
           ((rc, written, sigLen), s')"
    and "buf = take (nat (sint (lib_ECDSA_size lib k))) written @
               replicate (nat (sint (lib_ECDSA_size lib k)) - length written) 0"
  shows "\<exists>signature w'. signECC lib key data w = Inr (signature, w') \<and>
           int (length buf) = sint (lib_ECDSA_size lib k) \<and>
           signature = take (unat sigLen) buf \<and>
           int (length signature) \<le> sint (lib_ECDSA_size lib k)"
proof -
  let ?n = "nat (sint (lib_ECDSA_size lib k))"
  have le: "int (unat sigLen) \<le> sint (lib_ECDSA_size lib k)"
    using assms(1) [unfolded ECDSA_sign_contract_def, rule_format, of 0 data "int_of_size_t (length data)" k "lib_state w"]
    by (simp add: assms(3))
  have nn: "0 \<le> sint (lib_ECDSA_size lib k)"
    by (rule order_trans [OF _ le]) (rule of_nat_0_le_iff)
  then have un: "unat (lib_ECDSA_size lib k) = ?n" by (rule unat_of_nonneg_sint)
  have b: "take ?n written @ drop (length (take ?n written)) (replicate (unat (lib_ECDSA_size lib k)) 0) = buf"
    by (simp add: assms(4) un)
  have lb: "length buf = ?n" by (simp add: assms(4))
  have le': "unat sigLen \<le> ?n" using le by (simp only: le_nat_iff [OF nn])
  have "signECC lib key data w =
     Inr (take (unat sigLen) buf @ replicate (unat sigLen - length buf) 0,
          w\<lparr>lib_state := s', trace := trace w @ [ECDSA_size_call key, ECDSA_sign_call key]\<rparr>)"
    using signECC_eq [OF assms(2,3) refl refl] by (simp only: b)
  moreover have "take (unat sigLen) buf @ replicate (unat sigLen - length buf) 0 = take (unat sigLen) buf"
    using le' by (simp add: lb)
  moreover have "length (take (unat sigLen) buf) = unat sigLen"
    using le' by (simp add: lb)
  then have "int (length (take (unat sigLen) buf)) \<le> sint (lib_ECDSA_size lib k)"
    using le by (simp only:)
  ultimately show ?thesis using nn by (simp add: lb)
qed

theorem signature_within_ECDSA_size_witness:
  "deref (ec_heap demo_world) (Ptr 0) = Inr () \<and>
   lib_ECDSA_sign demo_lib 0 (bytes_of ''hello'') (int_of_size_t (length (bytes_of ''hello''))) ()
     (lib_state demo_world) = ((1, replicate 70 48, 70), 7) \<and>
   (\<exists>signature w'. signECC demo_lib (Ptr 0) (bytes_of ''hello'') demo_world = Inr (signature, w') \<and>
      signature = take 70 (replicate 70 48 @ replicate 2 0) \<and>
      int (length signature) \<le> 72)"
  using signature_within_ECDSA_size [OF demo_ECDSA_sign_contract demo_ec_key_0 demo_ecdsa_signs refl]
    demo_ec_key_0 demo_ecdsa_signs
  by (simp add: demo_ECDSA_size)


section \<open>The chaining loop of the library and the chaining of the standard\<close>

lemma cbc128_encrypt_0: "cbc128_encrypt blk inp 0 iv = ([], iv)"
  by (simp add: cbc128_encrypt.simps)

lemma cbc128_encrypt_step:
  "cbc128_encrypt blk inp (16 + len) iv =
     (blk (xor_bytes (take 16 inp) iv) @
        fst (cbc128_encrypt blk (drop 16 inp) len (blk (xor_bytes (take 16 inp) iv))),
      snd (cbc128_encrypt blk (drop 16 inp) len (blk (xor_bytes (take 16 inp) iv))))"
  by (subst cbc128_encrypt.simps) (simp add: Let_def)

lemma cbc128_decrypt_0: "cbc128_decrypt blk inp 0 iv = ([], iv)"
  by (simp add: cbc128_decrypt.simps)

lemma cbc128_decrypt_step:
  "cbc128_decrypt blk inp (16 + len) iv =
     (xor_bytes (blk (take 16 inp)) iv @ fst (cbc128_decrypt blk (drop 16 inp) len (take 16 inp)),
      snd (cbc128_decrypt blk (drop 16 inp) len (take 16 inp)))"
  by (subst cbc128_decrypt.simps) (simp add: Let_def)

lemma blocks_of_Nil: "blocks_of [] = []"
  by (simp add: blocks_of.simps)

lemma blocks_of_step: "xs \<noteq> [] \<Longrightarrow> blocks_of xs = take 16 xs # blocks_of (drop 16 xs)"
  by (subst blocks_of.simps) simp

lemma length_fit_block: "length (fit_block b) = 16"
  by (simp add: fit_block_def)

lemma length_AES_encrypt: "length (AES_encrypt lib key b) = 16"
  by (simp add: AES_encrypt_def length_fit_block)

lemma length_xor_bytes: "length (xor_bytes a b) = min (length a) (length b)"
  by (simp add: xor_bytes_def)

lemma xor_bytes_cancel: "length a = length b \<Longrightarrow> xor_bytes (xor_bytes a b) b = a"
  unfolding xor_bytes_def by (induction a b rule: list_induct2) (simp_all add: xor.assoc)

text \<open>On whole blocks the library's loop computes the chaining of the standard.\<close>

lemma cbc128_encrypt_is_CBC:
  "length inp = 16 * n \<Longrightarrow> fst (cbc128_encrypt E inp (16 * n) iv) = CBC_encrypt E iv inp"
proof (induction n arbitrary: inp iv)
  case 0
  then show ?case by (simp add: cbc128_encrypt_0 CBC_encrypt_def blocks_of_Nil)
next
  case (Suc n)
  then have ne: "inp \<noteq> []" and rest: "length (drop 16 inp) = 16 * n" by auto
  have "fst (cbc128_encrypt E inp (16 + 16 * n) iv) =
        E (xor_bytes (take 16 inp) iv) @ CBC_encrypt E (E (xor_bytes (take 16 inp) iv)) (drop 16 inp)"
    by (simp add: cbc128_encrypt_step Suc.IH [OF rest])
  also have "\<dots> = CBC_encrypt E iv inp"
    by (simp add: CBC_encrypt_def blocks_of_step [OF ne] Let_def)
  finally show ?case by simp
qed

lemma length_cbc128_encrypt:
  "(\<And>b. length (E b) = 16) \<Longrightarrow> length (fst (cbc128_encrypt E inp (16 * n) iv)) = 16 * n"
  by (induction n arbitrary: inp iv) (simp_all add: cbc128_encrypt_0 cbc128_encrypt_step)

lemma length_snd_cbc128_encrypt:
  "(\<And>b. length (E b) = 16) \<Longrightarrow> length iv = 16 \<Longrightarrow> length (snd (cbc128_encrypt E inp (16 * n) iv)) = 16"
  by (induction n arbitrary: inp iv) (simp_all add: cbc128_encrypt_0 cbc128_encrypt_step)

lemma cbc128_roundtrip:
  assumes len: "\<And>b. length (E b) = 16"
    and inv: "\<And>b. length b = 16 \<Longrightarrow> D (E b) = b"
  shows "length inp = 16 * n \<Longrightarrow> length iv = 16 \<Longrightarrow>
         fst (cbc128_decrypt D (fst (cbc128_encrypt E inp (16 * n) iv)) (16 * n) iv) = inp"
proof (induction n arbitrary: inp iv)
  case 0
  then show ?case by (simp add: cbc128_encrypt_0 cbc128_decrypt_0)
next
  case (Suc n)
  let ?p = "take 16 inp"
  let ?c = "E (xor_bytes ?p iv)"
  have p16: "length ?p = 16" using Suc.prems by simp
  have rest: "length (drop 16 inp) = 16 * n" using Suc.prems by simp
  have x16: "length (xor_bytes ?p iv) = 16" using p16 Suc.prems by (simp add: length_xor_bytes)
  have undo: "xor_bytes (D ?c) iv = ?p"
    using p16 Suc.prems by (simp add: inv [OF x16] xor_bytes_cancel)
  have "fst (cbc128_decrypt D (fst (cbc128_encrypt E inp (16 + 16 * n) iv)) (16 + 16 * n) iv) =
        ?p @ fst (cbc128_decrypt D (fst (cbc128_encrypt E (drop 16 inp) (16 * n) ?c)) (16 * n) ?c)"
    by (simp add: cbc128_encrypt_step cbc128_decrypt_step len undo)
  also have "\<dots> = ?p @ drop 16 inp"
    by (simp add: Suc.IH [OF rest] len)
  finally show ?case by simp
qed

section \<open>Symmetric encryption, step by step\<close>

lemma paddedLength_eq:
  assumes "length message + 2 * AES_BLOCK_SIZE \<le> vector_max_size"
  shows "paddedLength message = (length message div AES_BLOCK_SIZE + 1) * AES_BLOCK_SIZE"
proof -
  have small: "length message + 32 < 2 ^ 63"
    using assms by (simp add: AES_BLOCK_SIZE_def vector_max_size_def)
  have "length message div 16 + 1 < 2 ^ 64" using small by simp
  then have "size_t_wrap (int (length message div 16 + 1)) = length message div 16 + 1"
    by (rule size_t_wrap_small)
  then have "size_t_wrap (int (length message div 16) + 1) = length message div 16 + 1"
    by (simp add: add.commute)
  moreover have "size_t_wrap (int ((length message div 16 + 1) * 16)) = (length message div 16 + 1) * 16"
    using small by (intro size_t_wrap_small) simp
  ultimately show ?thesis
    by (simp add: paddedLength_def AES_BLOCK_SIZE_def)
qed

lemma paddedLength_bounds:
  assumes "length message + 2 * AES_BLOCK_SIZE \<le> vector_max_size"
  shows "length message < paddedLength message"
    and "paddedLength message \<le> length message + AES_BLOCK_SIZE"
    and "paddedLength message = 16 * (length message div 16 + 1)"
    and "paddedLength message - length message = 16 - length message mod 16"
  using paddedLength_eq [OF assms] by (simp_all add: AES_BLOCK_SIZE_def) presburger+

lemma RAND_bytes_16:
  assumes "lib_RAND_bytes lib 16 (lib_state w) = ((rc, bytes), s')"
  shows "RAND_bytes lib (replicate 16 0) 16 w =
         Inr ((rc, take 16 bytes @ replicate (16 - length bytes) 0),
              w\<lparr>lib_state := s', trace := trace w @ [RAND_bytes_call]\<rparr>)"
  using assms by (simp add: RAND_bytes_def std_copy_def logged_def)

lemma encryptAES_eq:
  assumes key: "16 \<le> length key"
    and fits: "length message + 2 * AES_BLOCK_SIZE \<le> vector_max_size"
    and rand: "lib_RAND_bytes lib 16 (lib_state w) = ((rc, bytes), s')"
    and iv: "iv = take 16 bytes @ replicate (16 - length bytes) 0"
    and ek: "ek = snd (lib_AES_set_encrypt_key lib (take 16 key) 128)"
    and pm: "pm = message @ replicate (paddedLength message - length message) 0"
  shows "encryptAES lib key message w =
     Inr (iv @ fst (cbc128_encrypt (AES_encrypt lib ek) pm (paddedLength message) iv),
          w\<lparr>lib_state := s',
            trace := trace w @ [RAND_bytes_call, AES_set_encrypt_key_call, AES_cbc_encrypt_call]\<rparr>)"
proof -
  let ?n = "paddedLength message"
  let ?E = "AES_encrypt lib ek"
  let ?r = "cbc128_encrypt ?E pm ?n iv"
  obtain m where n: "?n = 16 * m" using paddedLength_bounds(3) [OF fits] by blast
  have iv16: "length iv = 16" by (simp add: iv)
  have lt: "length message < ?n" by (rule paddedLength_bounds(1) [OF fits])
  have small: "?n + 16 \<le> vector_max_size"
    using paddedLength_bounds(2) [OF fits] fits by (simp add: AES_BLOCK_SIZE_def)
  have s1: "vector_create AES_BLOCK_SIZE = Inr (replicate 16 0)"
    by (simp add: vector_create_def AES_BLOCK_SIZE_def vector_max_size_def)
  have s2: "RAND_bytes lib (replicate 16 0) (int_of_size_t 16) w =
        Inr ((rc, iv), w\<lparr>lib_state := s', trace := trace w @ [RAND_bytes_call]\<rparr>)"
    using RAND_bytes_16 [OF rand] by (simp add: int_of_size_t_def iv)
  have "size_t_wrap (int (16 + ?n)) = 16 + ?n"
    using small by (intro size_t_wrap_small) (simp add: vector_max_size_def)
  then have s3: "vector_create (size_t_wrap (16 + int ?n)) = Inr (replicate (16 + ?n) 0)"
    using small by (simp add: vector_create_def)
  have s4: "std_copy iv (replicate (16 + ?n) 0) 0 = Inr (iv @ replicate ?n 0)"
    by (simp add: std_copy_def iv16)
  have s5: "vector_create ?n = Inr (replicate ?n 0)"
    using small by (simp add: vector_create_def)
  have s6: "std_copy message (replicate ?n 0) 0 = Inr pm"
    using lt by (simp add: std_copy_def pm)
  have s7: "AES_set_encrypt_key lib key 128 w1 =
        Inr ((fst (lib_AES_set_encrypt_key lib (take 16 key) 128), ek), logged AES_set_encrypt_key_call w1)" for w1 :: "('a, 'b, 'd) world"
    using key by (simp add: AES_set_encrypt_key_def ek)
  have lpm: "length pm = ?n" using lt by (simp add: pm)
  have lr: "length (fst ?r) = ?n"
    unfolding n by (rule length_cbc128_encrypt) (rule length_AES_encrypt)
  have lr2: "length (snd ?r) = 16"
    unfolding n by (rule length_snd_cbc128_encrypt) (simp_all add: length_AES_encrypt iv16)
  have s8: "AES_cbc_encrypt lib pm (iv @ replicate ?n 0) 16 ?n ek iv AES_ENCRYPT w1 =
        Inr ((iv @ fst ?r, snd ?r), logged AES_cbc_encrypt_call w1)" for w1 :: "('a, 'b, 'd) world"
    by (simp add: AES_cbc_encrypt_def lpm iv16 AES_ENCRYPT_def Let_def std_copy_def lr lr2)
  show ?thesis
    by (simp add: encryptAES_def bnd_def lift_def ret_def s1 s2 iv16 s3 s4 s5 s6 s7 s8 logged_def)
qed

lemma fit_block_id: "length b = 16 \<Longrightarrow> fit_block b = b"
  by (simp add: fit_block_def)

lemma blocks_of_append:
  "length xs = 16 * n \<Longrightarrow> blocks_of (xs @ ys) = blocks_of xs @ blocks_of ys"
proof (induction n arbitrary: xs)
  case 0
  then show ?case by (simp add: blocks_of_Nil)
next
  case (Suc n)
  then have ne: "xs \<noteq> []" "xs @ ys \<noteq> []" and rest: "length (drop 16 xs) = 16 * n" by auto
  show ?case
    using Suc.prems by (simp add: blocks_of_step [OF ne(1)] blocks_of_step [OF ne(2)] Suc.IH [OF rest])
qed

lemma blocks_of_one: "length b = 16 \<Longrightarrow> blocks_of b = [b]"
  by (subst blocks_of.simps) (auto simp: blocks_of_Nil)

text \<open>The result of \<open>encryptAES\<close>, in the terms of the standard.\<close>

lemma encryptAES_CBC:
  assumes key: "16 \<le> length key"
    and fits: "length message + 2 * AES_BLOCK_SIZE \<le> vector_max_size"
    and rand: "lib_RAND_bytes lib 16 (lib_state w) = ((rc, bytes), s')"
    and iv: "iv = take 16 bytes @ replicate (16 - length bytes) 0"
    and ek: "ek = snd (lib_AES_set_encrypt_key lib (take 16 key) 128)"
    and pm: "pm = message @ replicate (paddedLength message - length message) 0"
  shows "encryptAES lib key message w =
     Inr (iv @ CBC_encrypt (AES_encrypt lib ek) iv pm,
          w\<lparr>lib_state := s',
            trace := trace w @ [RAND_bytes_call, AES_set_encrypt_key_call, AES_cbc_encrypt_call]\<rparr>)"
    and "length (CBC_encrypt (AES_encrypt lib ek) iv pm) = paddedLength message"
    and "length pm = paddedLength message"
    and "length iv = 16"
proof -
  obtain m where n: "paddedLength message = 16 * m"
    using paddedLength_bounds(3) [OF fits] by blast
  have lt: "length message < paddedLength message" by (rule paddedLength_bounds(1) [OF fits])
  then show lpm: "length pm = paddedLength message" by (simp add: pm)
  then have cbc: "fst (cbc128_encrypt (AES_encrypt lib ek) pm (paddedLength message) iv) =
        CBC_encrypt (AES_encrypt lib ek) iv pm"
    unfolding n by (rule cbc128_encrypt_is_CBC)
  show "encryptAES lib key message w =
     Inr (iv @ CBC_encrypt (AES_encrypt lib ek) iv pm,
          w\<lparr>lib_state := s',
            trace := trace w @ [RAND_bytes_call, AES_set_encrypt_key_call, AES_cbc_encrypt_call]\<rparr>)"
    using encryptAES_eq [OF key fits rand iv ek pm] by (simp only: cbc)
  have "length (fst (cbc128_encrypt (AES_encrypt lib ek) pm (paddedLength message) iv)) =
        paddedLength message"
    unfolding n by (rule length_cbc128_encrypt) (rule length_AES_encrypt)
  then show "length (CBC_encrypt (AES_encrypt lib ek) iv pm) = paddedLength message"
    by (simp only: cbc)
  show "length iv = 16" by (simp add: iv)
qed

lemma demo_rand: "lib_RAND_bytes demo_lib 16 (lib_state demo_world) = ((1, replicate 16 7), 8)"
  by (simp add: demo_lib_def demo_world_def)

lemma demo_key: "16 \<le> length (replicate 16 5 :: byte list)"
  by simp

lemma demo_fits: "length (bytes_of ''hello'') + 2 * AES_BLOCK_SIZE \<le> vector_max_size"
  by (simp add: bytes_of_def AES_BLOCK_SIZE_def vector_max_size_def)

lemma demo_fits_16: "length (bytes_of ''0123456789abcdef'') + 2 * AES_BLOCK_SIZE \<le> vector_max_size"
  by (simp add: bytes_of_def AES_BLOCK_SIZE_def vector_max_size_def)

lemma demo_block_cipher:
  "\<forall>b. length b = 16 \<longrightarrow>
     AES_decrypt demo_lib (snd (lib_AES_set_decrypt_key demo_lib (take 16 (replicate 16 5)) 128))
       (AES_encrypt demo_lib (snd (lib_AES_set_encrypt_key demo_lib (take 16 (replicate 16 5)) 128)) b) = b"
  by (simp add: AES_decrypt_def AES_encrypt_def demo_lib_def fit_block_id length_xor_bytes
      xor_bytes_cancel)

lemma demo_paddedLength_16: "paddedLength (bytes_of ''0123456789abcdef'') = 32"
  by (simp add: paddedLength_eq [OF demo_fits_16]) (simp add: bytes_of_def AES_BLOCK_SIZE_def)

lemma demo_padding_16:
  "16 = paddedLength (bytes_of ''0123456789abcdef'') - length (bytes_of ''0123456789abcdef'')"
  by (simp add: demo_paddedLength_16) (simp add: bytes_of_def)

lemma demo_key_9: "16 \<le> length (replicate 16 9 :: byte list)"
  by simp

lemma demo_same_length: "length (bytes_of ''hello'') = length (bytes_of ''world'')"
  by (simp add: bytes_of_def)

section \<open>Symmetric encryption: what the sample guarantees\<close>

text \<open>
  In the theorems of this section the key has the 16 bytes \<^verbatim>\<open>AES_set_encrypt_key\<close>
  reads for a 128-bit key, and the output, 32 bytes longer than the message at most,
  is a vector the run-time can create (\<open>vector_max_size\<close>); every \<^verbatim>\<open>std::string\<close>
  that fits into the address space is that short.
\<close>

text \<open>
  Claim C1. For every message, \<open>encryptAES\<close> returns a buffer of length
  \<open>AES_BLOCK_SIZE + ((len / AES_BLOCK_SIZE) + 1) * AES_BLOCK_SIZE\<close>. Its first
  \<open>AES_BLOCK_SIZE\<close> (16) bytes are the initialization vector, as \<^verbatim>\<open>RAND_bytes\<close> left it in
  the buffer \<open>iv\<close>; the remaining bytes are the AES-128-CBC encryption, under that
  initialization vector, of the message followed by zero bytes up to the padded length.
\<close>

theorem encryptAES_output:
  assumes "16 \<le> length key"
    and "length message + 2 * AES_BLOCK_SIZE \<le> vector_max_size"
    and "lib_RAND_bytes lib 16 (lib_state w) = ((rc, bytes), s')"
    and "iv = take 16 bytes @ replicate (16 - length bytes) 0"
    and "ek = snd (lib_AES_set_encrypt_key lib (take 16 key) 128)"
    and "padded = message @
           replicate (((length message div AES_BLOCK_SIZE) + 1) * AES_BLOCK_SIZE - length message) 0"
  shows "\<exists>output w'. encryptAES lib key message w = Inr (output, w') \<and>
           length output =
             AES_BLOCK_SIZE + ((length message div AES_BLOCK_SIZE) + 1) * AES_BLOCK_SIZE \<and>
           take AES_BLOCK_SIZE output = iv \<and>
           length padded = ((length message div AES_BLOCK_SIZE) + 1) * AES_BLOCK_SIZE \<and>
           drop AES_BLOCK_SIZE output = CBC_encrypt (AES_encrypt lib ek) iv padded"
proof -
  have pm: "padded = message @ replicate (paddedLength message - length message) 0"
    by (simp add: assms(6) paddedLength_eq [OF assms(2)])
  note r = encryptAES_CBC [OF assms(1,2,3,4,5) pm]
  show ?thesis
    using r(2,3,4) by (simp add: r(1) paddedLength_eq [OF assms(2)] AES_BLOCK_SIZE_def)
qed

theorem encryptAES_output_witness:
  "16 \<le> length (replicate 16 5 :: byte list) \<and>
   length (bytes_of ''hello'') + 2 * AES_BLOCK_SIZE \<le> vector_max_size \<and>
   lib_RAND_bytes demo_lib 16 (lib_state demo_world) = ((1, replicate 16 7), 8) \<and>
   (\<exists>output w'. encryptAES demo_lib (replicate 16 5) (bytes_of ''hello'') demo_world = Inr (output, w') \<and>
      length output = 32 \<and>
      take 16 output = replicate 16 7 \<and>
      drop 16 output =
        CBC_encrypt (AES_encrypt demo_lib (replicate 16 5)) (replicate 16 7)
          (bytes_of ''hello'' @ replicate 11 0))"
  using encryptAES_output [OF demo_key demo_fits demo_rand refl refl refl]
    demo_key demo_fits demo_rand
  by (simp add: AES_BLOCK_SIZE_def bytes_of_def demo_lib_def)

text \<open>
  Claim C6. For any message, encrypting it with \<open>encryptAES\<close> and then decrypting the
  body of the output in the chaining mode, with the same key and with the
  initialization vector read from the first \<open>AES_BLOCK_SIZE\<close> bytes of the output, gives
  the message followed by zero bytes only (between 1 and 16 of them). The decryption is
  the library's loop \<open>cbc128_decrypt\<close>; the block cipher of the library is taken to
  decrypt what it encrypts.
\<close>

theorem encrypt_then_decrypt:
  assumes "16 \<le> length key"
    and "length message + 2 * AES_BLOCK_SIZE \<le> vector_max_size"
    and "ek = snd (lib_AES_set_encrypt_key lib (take 16 key) 128)"
    and "dk = snd (lib_AES_set_decrypt_key lib (take 16 key) 128)"
    and "\<forall>b. length b = 16 \<longrightarrow> AES_decrypt lib dk (AES_encrypt lib ek b) = b"
  shows "\<exists>output w' n. encryptAES lib key message w = Inr (output, w') \<and>
           1 \<le> n \<and> n \<le> AES_BLOCK_SIZE \<and>
           fst (cbc128_decrypt (AES_decrypt lib dk) (drop AES_BLOCK_SIZE output)
                  (length output - AES_BLOCK_SIZE) (take AES_BLOCK_SIZE output)) =
             message @ replicate n 0"
proof -
  let ?n = "paddedLength message - length message"
  let ?pm = "message @ replicate ?n 0"
  obtain rc bytes s' where rand: "lib_RAND_bytes lib 16 (lib_state w) = ((rc, bytes), s')"
    by (metis prod.exhaust)
  define iv where "iv = take 16 bytes @ replicate (16 - length bytes) 0"
  note b = paddedLength_bounds [OF assms(2)]
  obtain m where m: "paddedLength message = 16 * m" using b(3) by blast
  have iv16: "length iv = 16" by (simp add: iv_def)
  have lpm: "length ?pm = 16 * m" using b(1) m by simp
  have enc: "encryptAES lib key message w =
     Inr (iv @ fst (cbc128_encrypt (AES_encrypt lib ek) ?pm (paddedLength message) iv),
          w\<lparr>lib_state := s',
            trace := trace w @ [RAND_bytes_call, AES_set_encrypt_key_call, AES_cbc_encrypt_call]\<rparr>)"
    by (rule encryptAES_eq [OF assms(1,2) rand iv_def assms(3) refl])
  have lc: "length (fst (cbc128_encrypt (AES_encrypt lib ek) ?pm (16 * m) iv)) = 16 * m"
    by (rule length_cbc128_encrypt) (rule length_AES_encrypt)
  have rt: "fst (cbc128_decrypt (AES_decrypt lib dk)
                  (fst (cbc128_encrypt (AES_encrypt lib ek) ?pm (16 * m) iv)) (16 * m) iv) = ?pm"
    using assms(5) by (intro cbc128_roundtrip lpm iv16) (simp_all add: length_AES_encrypt)
  have "1 \<le> ?n" "?n \<le> AES_BLOCK_SIZE" using b(1,2) by simp_all
  then show ?thesis
    using rt lc by (simp add: enc m iv16 AES_BLOCK_SIZE_def)
qed

theorem encrypt_then_decrypt_witness:
  "16 \<le> length (replicate 16 5 :: byte list) \<and>
   length (bytes_of ''hello'') + 2 * AES_BLOCK_SIZE \<le> vector_max_size \<and>
   (\<exists>output w' n. encryptAES demo_lib (replicate 16 5) (bytes_of ''hello'') demo_world = Inr (output, w') \<and>
      1 \<le> n \<and> n \<le> 16 \<and>
      fst (cbc128_decrypt
             (AES_decrypt demo_lib (snd (lib_AES_set_decrypt_key demo_lib (take 16 (replicate 16 5)) 128)))
             (drop 16 output) (length output - 16) (take 16 output)) =
        bytes_of ''hello'' @ replicate n 0)"
  using encrypt_then_decrypt [OF demo_key demo_fits refl refl demo_block_cipher, of demo_world]
    demo_key demo_fits
  by (simp add: AES_BLOCK_SIZE_def)

text \<open>
  Claim C8. For every message, \<open>encryptAES\<close> appends at least one and at most
  \<open>AES_BLOCK_SIZE\<close> (16) zero bytes: the padded length \<open>((len / 16) + 1) * 16\<close> is greater
  than the length of the message, and the zero bytes are encrypted with it. When the
  length of the message is a multiple of the block size, the plaintext that is
  encrypted ends with a whole block of zero bytes.
\<close>

theorem encryptAES_padding:
  assumes "16 \<le> length key"
    and "length message + 2 * AES_BLOCK_SIZE \<le> vector_max_size"
    and "n = paddedLength message - length message"
  shows "1 \<le> n \<and> n \<le> AES_BLOCK_SIZE \<and>
         length message < paddedLength message \<and>
         paddedLength message = ((length message div 16) + 1) * 16 \<and>
         (\<exists>iv ek w'. encryptAES lib key message w =
              Inr (iv @ CBC_encrypt (AES_encrypt lib ek) iv (message @ replicate n 0), w') \<and>
            length iv = AES_BLOCK_SIZE \<and>
            length (CBC_encrypt (AES_encrypt lib ek) iv (message @ replicate n 0)) =
              length message + n) \<and>
         (length message mod AES_BLOCK_SIZE = 0 \<longrightarrow>
            n = AES_BLOCK_SIZE \<and>
            blocks_of (message @ replicate n 0) = blocks_of message @ [replicate AES_BLOCK_SIZE 0])"
proof (intro conjI impI)
  note b = paddedLength_bounds [OF assms(2)]
  show "1 \<le> n" using b(1) by (simp add: assms(3))
  show "n \<le> AES_BLOCK_SIZE" using b(2) by (simp add: assms(3))
  show "length message < paddedLength message" by (rule b(1))
  show "paddedLength message = ((length message div 16) + 1) * 16" using b(3) by simp
  obtain rc bytes s' where rand: "lib_RAND_bytes lib 16 (lib_state w) = ((rc, bytes), s')"
    by (metis prod.exhaust)
  note r = encryptAES_CBC [OF assms(1,2) rand refl refl refl]
  have sum: "length message + n = paddedLength message" using b(1) by (simp add: assms(3))
  show "\<exists>iv ek w'. encryptAES lib key message w =
              Inr (iv @ CBC_encrypt (AES_encrypt lib ek) iv (message @ replicate n 0), w') \<and>
            length iv = AES_BLOCK_SIZE \<and>
            length (CBC_encrypt (AES_encrypt lib ek) iv (message @ replicate n 0)) =
              length message + n"
    unfolding assms(3) [symmetric] sum AES_BLOCK_SIZE_def
    using r(1,2,4) unfolding assms(3) [symmetric] by (intro exI conjI)
  assume whole: "length message mod AES_BLOCK_SIZE = 0"
  then show n16: "n = AES_BLOCK_SIZE" using b(4) by (simp add: assms(3) AES_BLOCK_SIZE_def)
  obtain m where "length message = 16 * m" using whole by (auto simp: AES_BLOCK_SIZE_def)
  then show "blocks_of (message @ replicate n 0) = blocks_of message @ [replicate AES_BLOCK_SIZE 0]"
    by (simp add: blocks_of_append n16 blocks_of_one AES_BLOCK_SIZE_def)
qed

theorem encryptAES_padding_witness:
  "16 \<le> length (replicate 16 5 :: byte list) \<and>
   length (bytes_of ''0123456789abcdef'') + 2 * AES_BLOCK_SIZE \<le> vector_max_size \<and>
   16 = paddedLength (bytes_of ''0123456789abcdef'') - length (bytes_of ''0123456789abcdef'') \<and>
   length (bytes_of ''0123456789abcdef'') mod AES_BLOCK_SIZE = 0 \<and>
   length (bytes_of ''0123456789abcdef'') < paddedLength (bytes_of ''0123456789abcdef'') \<and>
   (\<exists>iv ek w'. encryptAES demo_lib (replicate 16 5) (bytes_of ''0123456789abcdef'') demo_world =
      Inr (iv @ CBC_encrypt (AES_encrypt demo_lib ek) iv
                  (bytes_of ''0123456789abcdef'' @ replicate 16 0), w')) \<and>
   blocks_of (bytes_of ''0123456789abcdef'' @ replicate 16 0) =
     blocks_of (bytes_of ''0123456789abcdef'') @ [replicate AES_BLOCK_SIZE 0]"
proof -
  have whole: "length (bytes_of ''0123456789abcdef'') mod AES_BLOCK_SIZE = 0"
    by (simp add: bytes_of_def AES_BLOCK_SIZE_def)
  show ?thesis
    using encryptAES_padding [OF demo_key demo_fits_16 demo_padding_16, of demo_lib demo_world]
      demo_key demo_fits_16 demo_padding_16 whole
    by blast
qed

text \<open>
  Claim C9. The length of the buffer \<open>encryptAES\<close> returns depends on the length of
  the message only: for two messages of equal length, whatever the keys, the library
  and its state (the random bytes), both outputs have the length
  \<open>AES_BLOCK_SIZE + ((len / AES_BLOCK_SIZE) + 1) * AES_BLOCK_SIZE\<close>.
\<close>

theorem encryptAES_length_depends_on_length_only:
  assumes "length message1 = length message2"
    and "16 \<le> length key1" and "16 \<le> length key2"
    and "length message1 + 2 * AES_BLOCK_SIZE \<le> vector_max_size"
  shows "\<exists>output1 w1' output2 w2'.
           encryptAES lib1 key1 message1 w1 = Inr (output1, w1') \<and>
           encryptAES lib2 key2 message2 w2 = Inr (output2, w2') \<and>
           length output1 = length output2 \<and>
           length output1 =
             AES_BLOCK_SIZE + ((length message1 div AES_BLOCK_SIZE) + 1) * AES_BLOCK_SIZE"
proof -
  obtain rc1 bytes1 s1 where rand1: "lib_RAND_bytes lib1 16 (lib_state w1) = ((rc1, bytes1), s1)"
    by (metis prod.exhaust)
  obtain rc2 bytes2 s2 where rand2: "lib_RAND_bytes lib2 16 (lib_state w2) = ((rc2, bytes2), s2)"
    by (metis prod.exhaust)
  have fits2: "length message2 + 2 * AES_BLOCK_SIZE \<le> vector_max_size"
    using assms(1,4) by simp
  note r1 = encryptAES_CBC [OF assms(2,4) rand1 refl refl refl]
  note r2 = encryptAES_CBC [OF assms(3) fits2 rand2 refl refl refl]
  have p: "paddedLength message2 = paddedLength message1"
    by (simp add: paddedLength_def assms(1))
  show ?thesis
    using r1(2,4) r2(2,4)
    by (simp add: r1(1) r2(1) p paddedLength_eq [OF assms(4)] AES_BLOCK_SIZE_def)
qed

theorem encryptAES_length_depends_on_length_only_witness:
  "length (bytes_of ''hello'') = length (bytes_of ''world'') \<and>
   16 \<le> length (replicate 16 5 :: byte list) \<and> 16 \<le> length (replicate 16 9 :: byte list) \<and>
   length (bytes_of ''hello'') + 2 * AES_BLOCK_SIZE \<le> vector_max_size \<and>
   (\<exists>output1 w1' output2 w2'.
      encryptAES demo_lib (replicate 16 5) (bytes_of ''hello'') demo_world = Inr (output1, w1') \<and>
      encryptAES demo_lib (replicate 16 9) (bytes_of ''world'') initial_world = Inr (output2, w2') \<and>
      length output1 = length output2 \<and> length output1 = 32)"
  using encryptAES_length_depends_on_length_only [OF demo_same_length demo_key demo_key_9 demo_fits,
      of demo_lib demo_world demo_lib initial_world]
    demo_same_length demo_key demo_key_9 demo_fits
  by (simp add: AES_BLOCK_SIZE_def bytes_of_def)


section \<open>The driver, step by step\<close>

text \<open>
  What each procedure does to the world when it returns: the calls it adds to the
  trace and the handles it creates.
\<close>

lemma bnd_eq_Inr:
  "bnd m f w = Inr r \<longleftrightarrow> (\<exists>x w1. m w = Inr (x, w1) \<and> f x w1 = Inr r)"
  by (auto simp: bnd_def split: sum.splits)

lemma ret_eq_Inr: "ret x w = Inr (y, w') \<longleftrightarrow> y = x \<and> w' = w"
  by (auto simp: ret_def)

lemma generateRSAKeys_Inr:
  assumes "generateRSAKeys lib w = Inr (rsa, w1)"
  shows "rsa = Ptr (length (rsa_heap w)) \<and>
     (\<exists>s k. w1 = w\<lparr>lib_state := s, rsa_heap := rsa_heap w @ [Some k], bn_heap := bn_heap w @ [None],
            trace := trace w @
              [RSA_new_call (Ptr (length (rsa_heap w))), BN_new_call (Ptr (length (bn_heap w))),
               BN_set_word_call (Ptr (length (bn_heap w))),
               RSA_generate_key_ex_call (Ptr (length (rsa_heap w))) (Ptr (length (bn_heap w))),
               BN_free_call (Ptr (length (bn_heap w)))]\<rparr>)"
proof -
  obtain r1 s1 where new: "lib_RSA_new lib (lib_state w) = (r1, s1)" by (metis prod.exhaust)
  obtain b s2 where bn: "lib_BN_new lib s1 = (b, s2)" by (metis prod.exhaust)
  show ?thesis
  proof (cases r1)
    case None
    then have "generateRSAKeys lib w = Inl Null_dereference"
      using new bn
      by (cases b) (simp_all add: generateRSAKeys_def bnd_def ret_def RSA_new_def BN_new_def
          BN_set_word_def RSA_generate_key_ex_def alloc_def logged_def)
    with assms show ?thesis by simp
  next
    case (Some k0)
    show ?thesis
    proof (cases b)
      case False
      then have "generateRSAKeys lib w = Inl Null_dereference"
        using new bn Some
        by (simp add: generateRSAKeys_def bnd_def ret_def RSA_new_def BN_new_def
            BN_set_word_def alloc_def logged_def)
      with assms show ?thesis by simp
    next
      case True
      obtain rc k1 s3 where gen: "lib_RSA_generate_key_ex lib k0 2048 RSA_F4 s2 = ((rc, k1), s3)"
        by (metis prod.exhaust)
      from True bn have bn': "lib_BN_new lib s1 = (True, s2)" by simp
      show ?thesis
        using assms generateRSAKeys_eq [OF new [unfolded Some] bn' gen]
        by auto
    qed
  qed
qed

lemma encryptRSA_Inr:
  assumes "encryptRSA lib rsa message w = Inr (c, w1)"
  shows "\<exists>s. w1 = w\<lparr>lib_state := s,
             trace := trace w @ [RSA_size_call rsa, RSA_public_encrypt_call rsa]\<rparr>"
proof (cases "deref (rsa_heap w) rsa")
  case (Inl e)
  with assms show ?thesis by (simp add: encryptRSA_dead_handle)
next
  case (Inr k)
  obtain rc written s' where call:
    "lib_RSA_public_encrypt lib (int_of_size_t (length message)) message k
       RSA_PKCS1_PADDING (lib_state w) = ((rc, written), s')"
    by (metis prod.exhaust)
  show ?thesis
    using assms unfolding encryptRSA_eq [OF Inr call] by (auto split: sum.splits)
qed

lemma generateAES128Key_eq:
  assumes "lib_RAND_bytes lib 16 (lib_state w) = ((rc, bytes), s')"
  shows "generateAES128Key lib w =
     Inr (take 16 bytes @ replicate (16 - length bytes) 0,
          w\<lparr>lib_state := s', trace := trace w @ [RAND_bytes_call]\<rparr>)"
  using RAND_bytes_16 [OF assms]
  by (simp add: generateAES128Key_def bnd_def lift_def ret_def vector_create_def vector_max_size_def
      int_of_size_t_def)

lemma generateECCKeys_eq:
  assumes "lib_EC_KEY_new_by_curve_name lib NID_X9_62_prime256v1 (lib_state w) = (Some k0, s1)"
    and "lib_EC_KEY_generate_key lib k0 s1 = ((rc, k1), s2)"
  shows "generateECCKeys lib w =
     Inr (Ptr (length (ec_heap w)),
          w\<lparr>lib_state := s2, ec_heap := ec_heap w @ [Some k1],
            trace := trace w @
              [EC_KEY_new_by_curve_name_call (Ptr (length (ec_heap w))),
               EC_KEY_generate_key_call (Ptr (length (ec_heap w)))]\<rparr>)"
  using assms
  by (simp add: generateECCKeys_def bnd_def ret_def EC_KEY_new_by_curve_name_def
      EC_KEY_generate_key_def alloc_def logged_def)

lemma generateECCKeys_Inr:
  assumes "generateECCKeys lib w = Inr (key, w1)"
  shows "key = Ptr (length (ec_heap w)) \<and>
     (\<exists>s k. w1 = w\<lparr>lib_state := s, ec_heap := ec_heap w @ [Some k],
            trace := trace w @
              [EC_KEY_new_by_curve_name_call (Ptr (length (ec_heap w))),
               EC_KEY_generate_key_call (Ptr (length (ec_heap w)))]\<rparr>)"
proof -
  obtain r1 s1 where new: "lib_EC_KEY_new_by_curve_name lib NID_X9_62_prime256v1 (lib_state w) = (r1, s1)"
    by (metis prod.exhaust)
  show ?thesis
  proof (cases r1)
    case None
    then have "generateECCKeys lib w = Inl Null_dereference"
      using new
      by (simp add: generateECCKeys_def bnd_def EC_KEY_new_by_curve_name_def
          EC_KEY_generate_key_def logged_def)
    with assms show ?thesis by simp
  next
    case (Some k0)
    obtain rc k1 s2 where gen: "lib_EC_KEY_generate_key lib k0 s1 = ((rc, k1), s2)"
      by (metis prod.exhaust)
    show ?thesis
      using assms generateECCKeys_eq [OF new [unfolded Some] gen] by auto
  qed
qed

lemma signECC_Inr:
  assumes "signECC lib key data w = Inr (sg, w1)"
  shows "\<exists>s. w1 = w\<lparr>lib_state := s, trace := trace w @ [ECDSA_size_call key, ECDSA_sign_call key]\<rparr>"
proof (cases "deref (ec_heap w) key")
  case (Inl e)
  with assms show ?thesis by (simp add: signECC_dead_handle)
next
  case (Inr k)
  obtain rc written sigLen s' where call:
    "lib_ECDSA_sign lib 0 data (int_of_size_t (length data)) k (lib_state w) =
       ((rc, written, sigLen), s')"
    by (metis prod.exhaust)
  show ?thesis
    using assms unfolding signECC_eq [OF Inr call refl refl] by auto
qed

lemma driver_message_fits:
  "length (bytes_of ''Secret message for AES encryption'') + 2 * AES_BLOCK_SIZE \<le> vector_max_size"
  by (simp add: bytes_of_def AES_BLOCK_SIZE_def vector_max_size_def)

lemma encryptAES_Inr:
  assumes "encryptAES lib key message w = Inr (out, w1)"
    and "16 \<le> length key"
    and "length message + 2 * AES_BLOCK_SIZE \<le> vector_max_size"
  shows "\<exists>s. w1 = w\<lparr>lib_state := s,
      trace := trace w @ [RAND_bytes_call, AES_set_encrypt_key_call, AES_cbc_encrypt_call]\<rparr>"
proof -
  obtain rc bytes s' where rand: "lib_RAND_bytes lib 16 (lib_state w) = ((rc, bytes), s')"
    by (metis prod.exhaust)
  show ?thesis
    using assms(1) unfolding encryptAES_eq [OF assms(2,3) rand refl refl refl] by auto
qed

lemma generateAES128Key_Inr:
  assumes "generateAES128Key lib w = Inr (key, w1)"
  shows "length key = 16 \<and> (\<exists>s. w1 = w\<lparr>lib_state := s, trace := trace w @ [RAND_bytes_call]\<rparr>)"
proof -
  obtain rc bytes s' where rand: "lib_RAND_bytes lib 16 (lib_state w) = ((rc, bytes), s')"
    by (metis prod.exhaust)
  show ?thesis
    using assms unfolding generateAES128Key_eq [OF rand] by auto
qed

lemma main_Inr:
  assumes "main lib w = Inr (rc, w')"
  shows "rc = 0 \<and>
    (\<exists>s n1 n2 n3. w' = w\<lparr>lib_state := s,
        rsa_heap := rsa_heap w @ [None], bn_heap := bn_heap w @ [None],
        ec_heap := ec_heap w @ [None],
        trace := trace w @
          [RSA_new_call (Ptr (length (rsa_heap w))), BN_new_call (Ptr (length (bn_heap w))),
           BN_set_word_call (Ptr (length (bn_heap w))),
           RSA_generate_key_ex_call (Ptr (length (rsa_heap w))) (Ptr (length (bn_heap w))),
           BN_free_call (Ptr (length (bn_heap w))),
           RSA_size_call (Ptr (length (rsa_heap w))),
           RSA_public_encrypt_call (Ptr (length (rsa_heap w))),
           RAND_bytes_call,
           RAND_bytes_call, AES_set_encrypt_key_call, AES_cbc_encrypt_call,
           EC_KEY_new_by_curve_name_call (Ptr (length (ec_heap w))),
           EC_KEY_generate_key_call (Ptr (length (ec_heap w))),
           ECDSA_size_call (Ptr (length (ec_heap w))),
           ECDSA_sign_call (Ptr (length (ec_heap w))),
           RSA_free_call (Ptr (length (rsa_heap w))),
           EC_KEY_free_call (Ptr (length (ec_heap w)))],
        console := console w @
          [(''RSA encrypted data'', n1), (''AES encrypted data'', n2),
           (''ECC signature created'', n3)]\<rparr>)"
proof -
  from assms obtain rsaKey w1 encrypted w2 aesKey w3 encryptedAes w4 eccKey w5 signature w6 w7
    where g1: "generateRSAKeys lib w = Inr (rsaKey, w1)"
      and g2: "encryptRSA lib rsaKey (bytes_of ''Secret message for RSA encryption'') w1 =
                 Inr (encrypted, w2)"
      and g3: "generateAES128Key lib
                 (w2\<lparr>console := console w2 @ [(''RSA encrypted data'', length encrypted)]\<rparr>) =
                 Inr (aesKey, w3)"
      and g4: "encryptAES lib aesKey (bytes_of ''Secret message for AES encryption'') w3 =
                 Inr (encryptedAes, w4)"
      and g5: "generateECCKeys lib
                 (w4\<lparr>console := console w4 @ [(''AES encrypted data'', length encryptedAes)]\<rparr>) =
                 Inr (eccKey, w5)"
      and g6: "signECC lib eccKey (bytes_of ''Message for ECC signing'') w5 = Inr (signature, w6)"
      and g7: "RSA_free rsaKey
                 (w6\<lparr>console := console w6 @ [(''ECC signature created'', length signature)]\<rparr>) =
                 Inr ((), w7)"
      and g8: "EC_KEY_free eccKey w7 = Inr ((), w')"
      and rc: "rc = 0"
    unfolding main_def bnd_eq_Inr ret_eq_Inr print_length_def by auto
  from generateRSAKeys_Inr [OF g1] obtain s1 k1 where
    rsaKey: "rsaKey = Ptr (length (rsa_heap w))" and
    w1: "w1 = w\<lparr>lib_state := s1, rsa_heap := rsa_heap w @ [Some k1],
            bn_heap := bn_heap w @ [None],
            trace := trace w @
              [RSA_new_call (Ptr (length (rsa_heap w))), BN_new_call (Ptr (length (bn_heap w))),
               BN_set_word_call (Ptr (length (bn_heap w))),
               RSA_generate_key_ex_call (Ptr (length (rsa_heap w))) (Ptr (length (bn_heap w))),
               BN_free_call (Ptr (length (bn_heap w)))]\<rparr>"
    by blast
  from encryptRSA_Inr [OF g2] obtain s2 where
    w2: "w2 = w1\<lparr>lib_state := s2,
             trace := trace w1 @ [RSA_size_call rsaKey, RSA_public_encrypt_call rsaKey]\<rparr>"
    by blast
  from generateAES128Key_Inr [OF g3] obtain s3 where
    aesKey: "length aesKey = 16" and
    w3: "w3 = w2\<lparr>console := console w2 @ [(''RSA encrypted data'', length encrypted)],
             lib_state := s3, trace := trace w2 @ [RAND_bytes_call]\<rparr>"
    by auto
  from encryptAES_Inr [OF g4 _ driver_message_fits] aesKey obtain s4 where
    w4: "w4 = w3\<lparr>lib_state := s4,
      trace := trace w3 @ [RAND_bytes_call, AES_set_encrypt_key_call, AES_cbc_encrypt_call]\<rparr>"
    by auto
  from generateECCKeys_Inr [OF g5] obtain s5 k5 where
    eccKey: "eccKey = Ptr (length (ec_heap w4))" and
    w5: "w5 = w4\<lparr>console := console w4 @ [(''AES encrypted data'', length encryptedAes)],
            lib_state := s5, ec_heap := ec_heap w4 @ [Some k5],
            trace := trace w4 @
              [EC_KEY_new_by_curve_name_call (Ptr (length (ec_heap w4))),
               EC_KEY_generate_key_call (Ptr (length (ec_heap w4)))]\<rparr>"
    by auto
  from signECC_Inr [OF g6] obtain s6 where
    w6: "w6 = w5\<lparr>lib_state := s6, trace := trace w5 @ [ECDSA_size_call eccKey, ECDSA_sign_call eccKey]\<rparr>"
    by blast
  have ec4: "ec_heap w4 = ec_heap w" by (simp add: w4 w3 w2 w1)
  have w7: "w7 = w6\<lparr>console := console w6 @ [(''ECC signature created'', length signature)],
      rsa_heap := rsa_heap w @ [None], trace := trace w6 @ [RSA_free_call rsaKey]\<rparr>"
    using g7 by (simp add: RSA_free_def rsaKey w6 w5 w4 w3 w2 w1 logged_def)
  have w': "w' = w7\<lparr>ec_heap := ec_heap w @ [None], trace := trace w7 @ [EC_KEY_free_call eccKey]\<rparr>"
    using g8 by (simp add: EC_KEY_free_def eccKey ec4 w7 w6 w5 w4 w3 w2 w1 logged_def)
  have "w' = w\<lparr>lib_state := s6,
        rsa_heap := rsa_heap w @ [None], bn_heap := bn_heap w @ [None],
        ec_heap := ec_heap w @ [None],
        trace := trace w @
          [RSA_new_call (Ptr (length (rsa_heap w))), BN_new_call (Ptr (length (bn_heap w))),
           BN_set_word_call (Ptr (length (bn_heap w))),
           RSA_generate_key_ex_call (Ptr (length (rsa_heap w))) (Ptr (length (bn_heap w))),
           BN_free_call (Ptr (length (bn_heap w))),
           RSA_size_call (Ptr (length (rsa_heap w))),
           RSA_public_encrypt_call (Ptr (length (rsa_heap w))),
           RAND_bytes_call,
           RAND_bytes_call, AES_set_encrypt_key_call, AES_cbc_encrypt_call,
           EC_KEY_new_by_curve_name_call (Ptr (length (ec_heap w))),
           EC_KEY_generate_key_call (Ptr (length (ec_heap w))),
           ECDSA_size_call (Ptr (length (ec_heap w))),
           ECDSA_sign_call (Ptr (length (ec_heap w))),
           RSA_free_call (Ptr (length (rsa_heap w))),
           EC_KEY_free_call (Ptr (length (ec_heap w)))],
        console := console w @
          [(''RSA encrypted data'', length encrypted), (''AES encrypted data'', length encryptedAes),
           (''ECC signature created'', length signature)]\<rparr>"
    by (simp add: w' w7 w6 w5 w4 w3 w2 w1 eccKey ec4 rsaKey)
  with rc show ?thesis by blast
qed

lemma length_cbc128_encrypt_48:
  "length (fst (cbc128_encrypt (AES_encrypt lib k) inp 48 iv)) = 48"
  using length_cbc128_encrypt [of "AES_encrypt lib k" inp 3 iv] by (simp add: length_AES_encrypt)

lemma length_snd_cbc128_encrypt_48:
  "length iv = 16 \<Longrightarrow> length (snd (cbc128_encrypt (AES_encrypt lib k) inp 48 iv)) = 16"
  using length_snd_cbc128_encrypt [of "AES_encrypt lib k" iv inp 3] by (simp add: length_AES_encrypt)

lemma demo_main_returns: "\<exists>w'. main demo_lib initial_world = Inr (0, w')"
  by (simp add: main_def bnd_def ret_def lift_def print_length_def
      generateRSAKeys_def RSA_new_def BN_new_def BN_set_word_def RSA_generate_key_ex_def BN_free_def
      encryptRSA_def RSA_size_def RSA_public_encrypt_def
      generateAES128Key_def RAND_bytes_def
      encryptAES_def AES_set_encrypt_key_def AES_cbc_encrypt_def paddedLength_def
      generateECCKeys_def EC_KEY_new_by_curve_name_def EC_KEY_generate_key_def
      signECC_def ECDSA_size_def ECDSA_sign_def RSA_free_def EC_KEY_free_def
      alloc_def logged_def std_copy_def vector_create_def vector_resize_def vector_max_size_def
      size_t_of_int_def size_t_of_uint_def size_t_wrap_def int_of_size_t_def uint_of_int_def
      AES_BLOCK_SIZE_def AES_ENCRYPT_def RSA_F4_def RSA_PKCS1_PADDING_def NID_X9_62_prime256v1_def
      bytes_of_def demo_lib_def initial_world_def Let_def
      length_cbc128_encrypt_48 length_snd_cbc128_encrypt_48)

section \<open>The driver: what the sample guarantees\<close>

text \<open>
  Claim C7. In the driver, each key handle (the RSA handle from \<open>generateRSAKeys\<close>
  and the elliptic-curve handle from \<open>generateECCKeys\<close>) is created immediately before
  its use and is released exactly once, at the end of the routine, on its single exit
  path; no handle is released twice and none is left unreleased at return.

  Whenever \<open>main\<close> returns, the calls it has made into the library are the list
  \<open>calls\<close> below, in this order: the calls that create \<open>rsaKey\<close> are followed at once
  by \<^verbatim>\<open>RSA_size\<close> and \<^verbatim>\<open>RSA_public_encrypt\<close> on it, those that create \<open>eccKey\<close> by
  \<^verbatim>\<open>ECDSA_size\<close> and \<^verbatim>\<open>ECDSA_sign\<close> on it; the last two calls release the two handles,
  each release occurs once, and at return neither handle is live: the live handles
  are those of the start. (When a procedure ends with an exception, \<open>main\<close> does not
  return.)
\<close>

theorem driver_handle_lifecycle:
  assumes "main lib w = Inr (rc, w')"
    and "rsaKey = Ptr (length (rsa_heap w))"
    and "eccKey = Ptr (length (ec_heap w))"
    and "bne = Ptr (length (bn_heap w))"
    and "calls = drop (length (trace w)) (trace w')"
  shows "trace w' = trace w @ calls \<and>
         calls =
           [RSA_new_call rsaKey, BN_new_call bne, BN_set_word_call bne,
            RSA_generate_key_ex_call rsaKey bne, BN_free_call bne,
            RSA_size_call rsaKey, RSA_public_encrypt_call rsaKey,
            RAND_bytes_call,
            RAND_bytes_call, AES_set_encrypt_key_call, AES_cbc_encrypt_call,
            EC_KEY_new_by_curve_name_call eccKey, EC_KEY_generate_key_call eccKey,
            ECDSA_size_call eccKey, ECDSA_sign_call eccKey,
            RSA_free_call rsaKey, EC_KEY_free_call eccKey] \<and>
         count_list calls (RSA_free_call rsaKey) = 1 \<and>
         count_list calls (EC_KEY_free_call eccKey) = 1 \<and>
         length (rsa_heap w) \<notin> live (rsa_heap w') \<and>
         length (ec_heap w) \<notin> live (ec_heap w') \<and>
         live (rsa_heap w') = live (rsa_heap w) \<and>
         live (ec_heap w') = live (ec_heap w) \<and>
         live (bn_heap w') = live (bn_heap w)"
proof -
  from main_Inr [OF assms(1)] obtain s n1 n2 n3 where
    w': "w' = w\<lparr>lib_state := s,
        rsa_heap := rsa_heap w @ [None], bn_heap := bn_heap w @ [None],
        ec_heap := ec_heap w @ [None],
        trace := trace w @
          [RSA_new_call rsaKey, BN_new_call bne, BN_set_word_call bne,
            RSA_generate_key_ex_call rsaKey bne, BN_free_call bne,
            RSA_size_call rsaKey, RSA_public_encrypt_call rsaKey,
            RAND_bytes_call,
            RAND_bytes_call, AES_set_encrypt_key_call, AES_cbc_encrypt_call,
            EC_KEY_new_by_curve_name_call eccKey, EC_KEY_generate_key_call eccKey,
            ECDSA_size_call eccKey, ECDSA_sign_call eccKey,
            RSA_free_call rsaKey, EC_KEY_free_call eccKey],
        console := console w @
          [(''RSA encrypted data'', n1), (''AES encrypted data'', n2),
           (''ECC signature created'', n3)]\<rparr>"
    unfolding assms(2,3,4) by blast
  have calls: "calls =
           [RSA_new_call rsaKey, BN_new_call bne, BN_set_word_call bne,
            RSA_generate_key_ex_call rsaKey bne, BN_free_call bne,
            RSA_size_call rsaKey, RSA_public_encrypt_call rsaKey,
            RAND_bytes_call,
            RAND_bytes_call, AES_set_encrypt_key_call, AES_cbc_encrypt_call,
            EC_KEY_new_by_curve_name_call eccKey, EC_KEY_generate_key_call eccKey,
            ECDSA_size_call eccKey, ECDSA_sign_call eccKey,
            RSA_free_call rsaKey, EC_KEY_free_call eccKey]"
    by (simp add: assms(5) w')
  have heaps: "rsa_heap w' = rsa_heap w @ [None]" "ec_heap w' = ec_heap w @ [None]"
    "bn_heap w' = bn_heap w @ [None]"
    by (simp_all add: w')
  show ?thesis
  proof (intro conjI)
    show "trace w' = trace w @ calls" by (simp add: calls) (simp add: w')
    show "calls =
           [RSA_new_call rsaKey, BN_new_call bne, BN_set_word_call bne,
            RSA_generate_key_ex_call rsaKey bne, BN_free_call bne,
            RSA_size_call rsaKey, RSA_public_encrypt_call rsaKey,
            RAND_bytes_call,
            RAND_bytes_call, AES_set_encrypt_key_call, AES_cbc_encrypt_call,
            EC_KEY_new_by_curve_name_call eccKey, EC_KEY_generate_key_call eccKey,
            ECDSA_size_call eccKey, ECDSA_sign_call eccKey,
            RSA_free_call rsaKey, EC_KEY_free_call eccKey]"
      by (rule calls)
    show "count_list calls (RSA_free_call rsaKey) = 1" by (simp add: calls)
    show "count_list calls (EC_KEY_free_call eccKey) = 1" by (simp add: calls)
    show "length (rsa_heap w) \<notin> live (rsa_heap w')" by (simp add: heaps live_def)
    show "length (ec_heap w) \<notin> live (ec_heap w')" by (simp add: heaps live_def)
    show "live (rsa_heap w') = live (rsa_heap w)" by (simp add: heaps live_released)
    show "live (ec_heap w') = live (ec_heap w)" by (simp add: heaps live_released)
    show "live (bn_heap w') = live (bn_heap w)" by (simp add: heaps live_released)
  qed
qed

theorem driver_handle_lifecycle_witness:
  "\<exists>w'. main demo_lib initial_world = Inr (0, w') \<and>
     trace w' =
       [RSA_new_call (Ptr 0), BN_new_call (Ptr 0), BN_set_word_call (Ptr 0),
        RSA_generate_key_ex_call (Ptr 0) (Ptr 0), BN_free_call (Ptr 0),
        RSA_size_call (Ptr 0), RSA_public_encrypt_call (Ptr 0),
        RAND_bytes_call,
        RAND_bytes_call, AES_set_encrypt_key_call, AES_cbc_encrypt_call,
        EC_KEY_new_by_curve_name_call (Ptr 0), EC_KEY_generate_key_call (Ptr 0),
        ECDSA_size_call (Ptr 0), ECDSA_sign_call (Ptr 0),
        RSA_free_call (Ptr 0), EC_KEY_free_call (Ptr 0)] \<and>
     count_list (trace w') (RSA_free_call (Ptr 0)) = 1 \<and>
     count_list (trace w') (EC_KEY_free_call (Ptr 0)) = 1 \<and>
     live (rsa_heap w') = {} \<and> live (ec_heap w') = {} \<and> live (bn_heap w') = {}"
proof -
  from demo_main_returns obtain w' where m: "main demo_lib initial_world = Inr (0, w')" ..
  from driver_handle_lifecycle [OF m refl refl refl refl] m
  show ?thesis by (auto simp: initial_world_def live_def)
qed

end
